theory Spec2Isabelle
  imports Complex_Main
begin

section \<open>The dashboard script \<^verbatim>\<open>system_monitor/static/js/dashboard.js\<close>\<close>

text \<open>
  The script is the browser side of the monitor: it receives JSON payloads over a socket
  and from three HTTP endpoints, keeps a history of at most 60 samples per chart, and
  writes texts, widths and button states into the page.  The embedding below follows the
  script function by function.  A payload is a JavaScript value; every read the script
  makes (\<^verbatim>\<open>a.b\<close>, \<^verbatim>\<open>a?.b\<close>, \<^verbatim>\<open>a || b\<close>, \<^verbatim>\<open>a > n\<close>,
  \<^verbatim>\<open>x.toFixed(n)\<close>) is a function on such values, and a read that raises a
  \<^verbatim>\<open>TypeError\<close> in the browser is an error value here.
\<close>

subsection \<open>JavaScript values\<close>

text \<open>
  A number is a finite value (held exactly, as a rational), an infinity or NaN.  The two
  zeros of JavaScript are the one rational 0: the script never tells them apart.
\<close>

datatype jsnum = Fin rat | PInf | NInf | NaN

datatype jsval =
    Undefined
  | Null
  | Bool bool
  | Num jsnum
  | Str string
  | Arr "jsval list"
  | Obj "(string \<times> jsval) list"

text \<open>
  What the script can raise: reading a property of \<^verbatim>\<open>null\<close> or \<^verbatim>\<open>undefined\<close>,
  calling a method the value does not have (both are \<^verbatim>\<open>TypeError\<close>s), and a
  rejected \<^verbatim>\<open>fetch\<close> or \<^verbatim>\<open>response.json()\<close>, which carries its message.
\<close>

datatype error =
    CannotRead jsval string
  | NotAFunction jsval string
  | Rejected string

text \<open>
  Two conversions are built into the language and not part of the script: the text of a
  finite number (\<^verbatim>\<open>Number::toString\<close>, the shortest digits that read back as the same
  double) and the number a string denotes (\<^verbatim>\<open>StringToNumber\<close>).  The model takes
  them, and the text of an engine's error message, as parameters.  A string is a list of
  characters; a character outside ASCII is written as the bytes of its UTF-8 encoding.
\<close>

record runtime =
  num_to_str :: "rat \<Rightarrow> string"
  str_to_num :: "string \<Rightarrow> jsnum"
  error_message :: "error \<Rightarrow> string"

definition nullish :: "jsval \<Rightarrow> bool" where
  "nullish v = (v = Undefined \<or> v = Null)"

fun truthy :: "jsval \<Rightarrow> bool" where
  "truthy Undefined = False"
| "truthy Null = False"
| "truthy (Bool b) = b"
| "truthy (Num (Fin x)) = (x \<noteq> 0)"
| "truthy (Num NaN) = False"
| "truthy (Num _) = True"
| "truthy (Str s) = (s \<noteq> [])"
| "truthy (Arr _) = True"
| "truthy (Obj _) = True"

text \<open>\<^verbatim>\<open>a || b\<close>\<close>

definition or_else :: "jsval \<Rightarrow> jsval \<Rightarrow> jsval" where
  "or_else a b = (if truthy a then a else b)"

text \<open>
  The property \<open>k\<close> of a value that is neither \<^verbatim>\<open>null\<close> nor \<^verbatim>\<open>undefined\<close>.
  An object parsed from JSON keeps the last of two members with one name.  The names the
  script reads are all identifiers, and none of them is inherited from a built-in
  prototype, so an array or a string answers only to \<^verbatim>\<open>length\<close> and a number or a
  boolean to nothing.
\<close>

fun own_prop :: "jsval \<Rightarrow> string \<Rightarrow> jsval" where
  "own_prop (Obj kvs) k = (case map_of (rev kvs) k of None \<Rightarrow> Undefined | Some v \<Rightarrow> v)"
| "own_prop (Arr xs) k = (if k = ''length'' then Num (Fin (of_nat (length xs))) else Undefined)"
| "own_prop (Str s) k = (if k = ''length'' then Num (Fin (of_nat (length s))) else Undefined)"
| "own_prop _ k = Undefined"

text \<open>\<^verbatim>\<open>a.k\<close>\<close>

definition get :: "jsval \<Rightarrow> string \<Rightarrow> error + jsval" where
  "get v k = (if nullish v then Inl (CannotRead v k) else Inr (own_prop v k))"

text \<open>\<^verbatim>\<open>a?.k\<close>\<close>

definition opt_get :: "jsval \<Rightarrow> string \<Rightarrow> jsval" where
  "opt_get v k = (if nullish v then Undefined else own_prop v k)"

text \<open>\<^verbatim>\<open>a[0]\<close> on a value that is not nullish, and \<^verbatim>\<open>a?.[0]\<close>\<close>

fun own_index0 :: "jsval \<Rightarrow> jsval" where
  "own_index0 (Arr xs) = (case xs of [] \<Rightarrow> Undefined | x # _ \<Rightarrow> x)"
| "own_index0 (Str s) = (case s of [] \<Rightarrow> Undefined | c # _ \<Rightarrow> Str [c])"
| "own_index0 (Obj kvs) = own_prop (Obj kvs) ''0''"
| "own_index0 _ = Undefined"

definition get_index0 :: "jsval \<Rightarrow> error + jsval" where
  "get_index0 v = (if nullish v then Inl (CannotRead v ''0'') else Inr (own_index0 v))"

definition opt_index0 :: "jsval \<Rightarrow> jsval" where
  "opt_index0 v = (if nullish v then Undefined else own_index0 v)"

text \<open>\<^verbatim>\<open>s.a?.b\<close>: the first read raises on a nullish \<open>s\<close>, the second does not.\<close>

definition field :: "jsval \<Rightarrow> string \<Rightarrow> string \<Rightarrow> error + jsval" where
  "field s a b = (case get s a of Inl e \<Rightarrow> Inl e | Inr c \<Rightarrow> Inr (opt_get c b))"

text \<open>\<^verbatim>\<open>s.a?.b || d\<close>\<close>

definition field_or :: "jsval \<Rightarrow> string \<Rightarrow> string \<Rightarrow> jsval \<Rightarrow> error + jsval" where
  "field_or s a b d = (case field s a b of Inl e \<Rightarrow> Inl e | Inr v \<Rightarrow> Inr (or_else v d))"

subsection \<open>Statements\<close>

text \<open>
  A statement changes the page and either completes or raises; what it changed before
  raising stays changed.  A block runs its statements in order and stops at the first
  that raises.
\<close>

datatype 's outcome = Normal 's | Threw error 's

fun state_of :: "'s outcome \<Rightarrow> 's" where
  "state_of (Normal s) = s"
| "state_of (Threw e s) = s"

fun completes :: "'s outcome \<Rightarrow> bool" where
  "completes (Normal s) = True"
| "completes (Threw e s) = False"

fun run :: "('s \<Rightarrow> 's outcome) list \<Rightarrow> 's \<Rightarrow> 's outcome" where
  "run [] s = Normal s"
| "run (c # cs) s = (case c s of Normal s' \<Rightarrow> run cs s' | Threw e s' \<Rightarrow> Threw e s')"

text \<open>Evaluate the right-hand side; if it raises, nothing is assigned.\<close>

definition assign :: "('a \<Rightarrow> 's \<Rightarrow> 's) \<Rightarrow> error + 'a \<Rightarrow> 's \<Rightarrow> 's outcome" where
  "assign upd rhs s = (case rhs of Inl e \<Rightarrow> Threw e s | Inr v \<Rightarrow> Normal (upd v s))"

definition if_then :: "bool \<Rightarrow> ('s \<Rightarrow> 's outcome) list \<Rightarrow> 's \<Rightarrow> 's outcome" where
  "if_then b cs s = (if b then run cs s else Normal s)"

subsection \<open>Numbers and their texts\<close>

text \<open>
  Arithmetic on finite numbers is binary64 arithmetic: the exact result, rounded to the
  nearest double, ties to the even significand (53 bits, exponents from \<open>-1022\<close> to
  \<open>1023\<close>, subnormals below).  \<open>binade a\<close> is the exponent \<open>e\<close> with
  \<open>2 ^ e \<le> a < 2 ^ (e + 1)\<close>; a rounded magnitude in binade 1024 or above is
  beyond the largest double and gives an infinity.
\<close>

definition pow2 :: "int \<Rightarrow> rat" where
  "pow2 e = (if 0 \<le> e then 2 ^ nat e else 1 / 2 ^ nat (- e))"

function bits :: "int \<Rightarrow> int" where
  "bits n = (if n \<le> 0 then 0 else 1 + bits (n div 2))"
  by pat_completeness auto
termination
  by (relation "measure nat") auto

declare bits.simps [simp del]

definition binade :: "rat \<Rightarrow> int" where
  "binade a = (if 1 \<le> a then bits \<lfloor>a\<rfloor> - 1 else - bits (\<lceil>1 / a\<rceil> - 1))"

definition round_half_even :: "rat \<Rightarrow> int" where
  "round_half_even q =
     (let n = \<lfloor>q\<rfloor>; r = q - of_int n
      in if r < 1 / 2 then n else if 1 / 2 < r then n + 1 else if even n then n else n + 1)"

definition round_double :: "rat \<Rightarrow> jsnum" where
  "round_double x =
     (if x = 0 then Fin 0
      else let a = \<bar>x\<bar>;
               e = max (binade a) (- 1022);
               u = pow2 (e - 52);
               m = of_int (round_half_even (a / u)) * u
           in if 1024 \<le> binade m then (if x < 0 then NInf else PInf)
              else Fin (if x < 0 then - m else m))"

text \<open>\<^verbatim>\<open>c - n\<close> and \<^verbatim>\<open>n / c\<close> for a literal \<open>c\<close> of the script (100 and 1000)\<close>

fun js_sub_from :: "rat \<Rightarrow> jsnum \<Rightarrow> jsnum" where
  "js_sub_from c (Fin x) = round_double (c - x)"
| "js_sub_from c PInf = NInf"
| "js_sub_from c NInf = PInf"
| "js_sub_from c NaN = NaN"

fun js_div_by :: "jsnum \<Rightarrow> rat \<Rightarrow> jsnum" where
  "js_div_by (Fin x) c = round_double (x / c)"
| "js_div_by PInf c = PInf"
| "js_div_by NInf c = NInf"
| "js_div_by NaN c = NaN"

text \<open>\<^verbatim>\<open>n > c\<close> and \<^verbatim>\<open>n >= c\<close>: a comparison with NaN is false.\<close>

fun js_gt :: "jsnum \<Rightarrow> rat \<Rightarrow> bool" where
  "js_gt (Fin x) c = (c < x)"
| "js_gt PInf c = True"
| "js_gt _ c = False"

fun js_ge :: "jsnum \<Rightarrow> rat \<Rightarrow> bool" where
  "js_ge (Fin x) c = (c \<le> x)"
| "js_ge PInf c = True"
| "js_ge _ c = False"

text \<open>Decimal digits of a natural number.\<close>

definition digit :: "nat \<Rightarrow> char" where
  "digit d = ''0123456789'' ! d"

fun decimal :: "nat \<Rightarrow> string" where
  "decimal n = (if n < 10 then [digit n] else decimal (n div 10) @ [digit (n mod 10)])"

declare decimal.simps [simp del]

text \<open>
  \<^verbatim>\<open>Number.prototype.toFixed\<close>, as the language defines it on the exact value:
  the integer \<open>n\<close> nearest to \<open>a * 10 ^ f\<close> (the larger of two), padded with zeros
  to \<open>f + 1\<close> digits, a point before the last \<open>f\<close>.  From \<open>10 ^ 21\<close> on the
  result is the number's ordinary text instead.
\<close>

definition fixed_digits :: "rat \<Rightarrow> nat \<Rightarrow> string" where
  "fixed_digits a f =
     (let n = nat \<lfloor>a * 10 ^ f + 1 / 2\<rfloor>; m = decimal n
      in if f = 0 then m
         else let z = replicate (f + 1 - length m) (CHR ''0'') @ m; k = length z
              in take (k - f) z @ ''.'' @ drop (k - f) z)"

text \<open>
  The text of a finite number.  Up to \<open>2 ^ 53\<close> in size every whole number is a
  double of its own, so the shortest digits that read back as it are all of its decimal
  digits, and the text is written out here.  Beyond that (where the shortest digits end in
  padding zeros) and for every fraction the text is the runtime's.
\<close>

definition number_text :: "runtime \<Rightarrow> rat \<Rightarrow> string" where
  "number_text rt x =
     (if of_int \<lfloor>x\<rfloor> = x \<and> \<bar>x\<bar> \<le> 2 ^ 53
      then (if x < 0 then ''-'' else '''') @ decimal (nat \<lfloor>\<bar>x\<bar>\<rfloor>)
      else num_to_str rt x)"

fun num_toFixed :: "runtime \<Rightarrow> jsnum \<Rightarrow> nat \<Rightarrow> string" where
  "num_toFixed rt (Fin x) f =
     (if x < 0 then ''-'' else '''') @
     (if 10 ^ 21 \<le> \<bar>x\<bar> then number_text rt \<bar>x\<bar> else fixed_digits \<bar>x\<bar> f)"
| "num_toFixed rt PInf f = ''Infinity''"
| "num_toFixed rt NInf f = ''-Infinity''"
| "num_toFixed rt NaN f = ''NaN''"

text \<open>\<^verbatim>\<open>v.toFixed(f)\<close>: only a number has the method.\<close>

fun toFixed :: "runtime \<Rightarrow> jsval \<Rightarrow> nat \<Rightarrow> error + string" where
  "toFixed rt (Num n) f = Inr (num_toFixed rt n f)"
| "toFixed rt Undefined f = Inl (CannotRead Undefined ''toFixed'')"
| "toFixed rt Null f = Inl (CannotRead Null ''toFixed'')"
| "toFixed rt v f = Inl (NotAFunction v ''toFixed'')"

text \<open>The text of a value inside a template literal (\<^verbatim>\<open>ToString\<close>).\<close>

fun join :: "string list \<Rightarrow> string" where
  "join [] = []"
| "join [s] = s"
| "join (s # t # ts) = s @ '','' @ join (t # ts)"

fun to_string :: "runtime \<Rightarrow> jsval \<Rightarrow> string" where
  "to_string rt Undefined = ''undefined''"
| "to_string rt Null = ''null''"
| "to_string rt (Bool b) = (if b then ''true'' else ''false'')"
| "to_string rt (Num (Fin x)) = number_text rt x"
| "to_string rt (Num PInf) = ''Infinity''"
| "to_string rt (Num NInf) = ''-Infinity''"
| "to_string rt (Num NaN) = ''NaN''"
| "to_string rt (Str s) = s"
| "to_string rt (Arr xs) = join (map (\<lambda>x. if nullish x then [] else to_string rt x) xs)"
| "to_string rt (Obj kvs) = ''[object Object]''"

text \<open>The number a value stands for in a comparison or a subtraction (\<^verbatim>\<open>ToNumber\<close>).\<close>

fun to_number :: "runtime \<Rightarrow> jsval \<Rightarrow> jsnum" where
  "to_number rt Undefined = NaN"
| "to_number rt Null = Fin 0"
| "to_number rt (Bool b) = Fin (if b then 1 else 0)"
| "to_number rt (Num n) = n"
| "to_number rt (Str s) = str_to_num rt s"
| "to_number rt (Arr xs) = str_to_num rt (to_string rt (Arr xs))"
| "to_number rt (Obj kvs) = NaN"

subsection \<open>The page\<close>

text \<open>
  \<^verbatim>\<open>chartData\<close> holds eight arrays.  A chart starts with empty arrays of its own
  (\<^verbatim>\<open>initCharts\<close>) and is later pointed at the arrays of \<^verbatim>\<open>chartData\<close>
  themselves, which \<^verbatim>\<open>push\<close> and \<^verbatim>\<open>shift\<close> change in place: a chart holds
  a reference, and what it shows is read through it.
\<close>

datatype series = Labels | Cpu | Memory | Gpu | NetworkUp | NetworkDown | DiskRead | DiskWrite

datatype chart = CpuChart | MemoryChart | GpuChart | NetworkChart | DiskChart

datatype array_ref = Own | Shared series

text \<open>
  An element the script creates and appends: a toast, a partition bar, a table row.  Of
  the elements of the document the model keeps the properties the script assigns, by
  element id (for the two inside \<^verbatim>\<open>connectionStatus\<close>, the id and the selector) and
  property name; a text is kept as the value assigned, before the browser turns it into a
  string.  The document is taken to contain every element the script looks up.
\<close>

record element =
  tagName :: string
  className :: string
  innerHTML :: string
  textContent :: jsval

record page =
  chartData :: "series \<Rightarrow> jsval list"
  chartLabels :: "chart \<Rightarrow> array_ref"
  chartDatasets :: "chart \<times> nat \<Rightarrow> array_ref"
  gaugeData :: "jsval list"
  gaugeColor :: string
  props :: "string \<times> string \<Rightarrow> jsval"
  children :: "string \<Rightarrow> element list"
  downloads :: "(string \<times> jsval) list"

definition MAX_DATA_POINTS :: nat where
  "MAX_DATA_POINTS = 60"

text \<open>The page after \<^verbatim>\<open>initCharts\<close>, before any event.\<close>

definition initial_page :: "(string \<times> string \<Rightarrow> jsval) \<Rightarrow> page" where
  "initial_page document =
     \<lparr>chartData = (\<lambda>s. []),
      chartLabels = (\<lambda>c. Own),
      chartDatasets = (\<lambda>c. Own),
      gaugeData = [Num (Fin 0), Num (Fin 100)],
      gaugeColor = ''rgba(102, 126, 234, 0.8)'',
      props = document,
      children = (\<lambda>i. []),
      downloads = []\<rparr>"

text \<open>What a chart shows through a reference.\<close>

fun deref :: "page \<Rightarrow> array_ref \<Rightarrow> jsval list" where
  "deref p Own = []"
| "deref p (Shared s) = chartData p s"

definition shown_labels :: "page \<Rightarrow> chart \<Rightarrow> jsval list" where
  "shown_labels p c = deref p (chartLabels p c)"

definition shown_data :: "page \<Rightarrow> chart \<Rightarrow> nat \<Rightarrow> jsval list" where
  "shown_data p c i = deref p (chartDatasets p (c, i))"

text \<open>\<^verbatim>\<open>chartData.s.push(v)\<close>, \<^verbatim>\<open>chartData.s.shift()\<close> (nothing to remove from an
  empty array), and the assignments to a chart's data.\<close>

definition push :: "series \<Rightarrow> error + jsval \<Rightarrow> page \<Rightarrow> page outcome" where
  "push s rhs = assign (\<lambda>v p. p\<lparr>chartData := (chartData p)(s := chartData p s @ [v])\<rparr>) rhs"

definition shift :: "series \<Rightarrow> page \<Rightarrow> page outcome" where
  "shift s p = Normal (p\<lparr>chartData := (chartData p)(s := tl (chartData p s))\<rparr>)"

definition set_labels :: "chart \<Rightarrow> series \<Rightarrow> page \<Rightarrow> page outcome" where
  "set_labels c s p = Normal (p\<lparr>chartLabels := (chartLabels p)(c := Shared s)\<rparr>)"

definition set_dataset :: "chart \<Rightarrow> nat \<Rightarrow> series \<Rightarrow> page \<Rightarrow> page outcome" where
  "set_dataset c i s p = Normal (p\<lparr>chartDatasets := (chartDatasets p)((c, i) := Shared s)\<rparr>)"

subsection \<open>\<^verbatim>\<open>updateChartData\<close>\<close>

text \<open>
  \<open>now\<close> is the text of the clock, \<^verbatim>\<open>new Date().toLocaleTimeString()\<close>.  The
  calls \<^verbatim>\<open>chart.update('none')\<close> redraw a chart from its data and change nothing the
  script reads.
\<close>

definition gpu_load :: "jsval \<Rightarrow> error + jsval" where
  "gpu_load stats =
     (case get stats ''gpu'' of
        Inl e \<Rightarrow> Inl e
      | Inr g \<Rightarrow> Inr (or_else (opt_get (opt_index0 g) ''load_percent'') (Num (Fin 0))))"

text \<open>The value each of the eight \<^verbatim>\<open>push\<close> calls appends, by array.\<close>

fun new_sample :: "string \<Rightarrow> jsval \<Rightarrow> series \<Rightarrow> error + jsval" where
  "new_sample now stats Labels = Inr (Str now)"
| "new_sample now stats Cpu = field_or stats ''cpu'' ''usage_percent'' (Num (Fin 0))"
| "new_sample now stats Memory = field_or stats ''memory'' ''usage_percent'' (Num (Fin 0))"
| "new_sample now stats Gpu = gpu_load stats"
| "new_sample now stats NetworkUp = field_or stats ''network'' ''upload_speed_kbps'' (Num (Fin 0))"
| "new_sample now stats NetworkDown = field_or stats ''network'' ''download_speed_kbps'' (Num (Fin 0))"
| "new_sample now stats DiskRead = field_or stats ''disk'' ''io_read_speed_mbps'' (Num (Fin 0))"
| "new_sample now stats DiskWrite = field_or stats ''disk'' ''io_write_speed_mbps'' (Num (Fin 0))"

definition add_samples :: "string \<Rightarrow> jsval \<Rightarrow> (page \<Rightarrow> page outcome) list" where
  "add_samples now stats =
     [push Labels (new_sample now stats Labels),
      push Cpu (new_sample now stats Cpu),
      push Memory (new_sample now stats Memory),
      push Gpu (new_sample now stats Gpu),
      push NetworkUp (new_sample now stats NetworkUp),
      push NetworkDown (new_sample now stats NetworkDown),
      push DiskRead (new_sample now stats DiskRead),
      push DiskWrite (new_sample now stats DiskWrite)]"

definition keep_max :: "page \<Rightarrow> page outcome" where
  "keep_max p =
     if_then (MAX_DATA_POINTS < length (chartData p Labels))
       [shift Labels,
        shift Cpu,
        shift Memory,
        shift Gpu,
        shift NetworkUp,
        shift NetworkDown,
        shift DiskRead,
        shift DiskWrite] p"

definition refresh_charts :: "(page \<Rightarrow> page outcome) list" where
  "refresh_charts =
     [set_labels CpuChart Labels,
      set_dataset CpuChart 0 Cpu,
      set_labels MemoryChart Labels,
      set_dataset MemoryChart 0 Memory,
      set_labels GpuChart Labels,
      set_dataset GpuChart 0 Gpu,
      set_labels NetworkChart Labels,
      set_dataset NetworkChart 0 NetworkUp,
      set_dataset NetworkChart 1 NetworkDown,
      set_labels DiskChart Labels,
      set_dataset DiskChart 0 DiskRead,
      set_dataset DiskChart 1 DiskWrite]"

definition update_gauge :: "runtime \<Rightarrow> jsval \<Rightarrow> page \<Rightarrow> page outcome" where
  "update_gauge rt stats =
     assign (\<lambda>cpuUsage p.
        p\<lparr>gaugeData := [cpuUsage, Num (js_sub_from 100 (to_number rt cpuUsage))],
          gaugeColor :=
            (if js_gt (to_number rt cpuUsage) 80 then ''rgba(245, 87, 108, 0.8)''
             else if js_gt (to_number rt cpuUsage) 60 then ''rgba(250, 140, 68, 0.8)''
             else ''rgba(102, 126, 234, 0.8)'')\<rparr>)
       (field_or stats ''cpu'' ''usage_percent'' (Num (Fin 0)))"

definition updateChartData :: "runtime \<Rightarrow> string \<Rightarrow> jsval \<Rightarrow> page \<Rightarrow> page outcome" where
  "updateChartData rt now stats =
     run (add_samples now stats @ [keep_max] @ refresh_charts @ [update_gauge rt stats])"

text \<open>A sequence of calls, each with its clock text and its payload; a call that raises
  leaves the page as it was when it raised, and the next call starts from there.\<close>

fun updateChartData_calls :: "runtime \<Rightarrow> (string \<times> jsval) list \<Rightarrow> page \<Rightarrow> page" where
  "updateChartData_calls rt [] p = p"
| "updateChartData_calls rt ((now, stats) # cs) p =
     updateChartData_calls rt cs (state_of (updateChartData rt now stats p))"

text \<open>The value a call appends to an array when its reads succeed.\<close>

definition sample_val :: "string \<Rightarrow> jsval \<Rightarrow> series \<Rightarrow> jsval" where
  "sample_val now stats s = (case new_sample now stats s of Inr v \<Rightarrow> v | Inl e \<Rightarrow> Undefined)"

text \<open>The values a sequence of calls appends to an array, oldest first.\<close>

definition samples :: "(string \<times> jsval) list \<Rightarrow> series \<Rightarrow> jsval list" where
  "samples cs s = map (\<lambda>(now, stats). sample_val now stats s) cs"

text \<open>
  The theorems below hold for every runtime; a closed example needs one, and this one
  answers every conversion with a fixed text.
\<close>

definition example_runtime :: runtime where
  "example_runtime =
     \<lparr>num_to_str = (\<lambda>x. ''#''), str_to_num = (\<lambda>s. NaN), error_message = (\<lambda>e. ''!'')\<rparr>"

subsection \<open>Texts and assignments\<close>

text \<open>The fixed texts of the script that are not plain ASCII.\<close>

definition deg_C :: string where
  "deg_C = [CHR 0xC2, CHR 0xB0] @ ''C''"

definition gpu_not_found :: string where
  "gpu_not_found = ''GPU'' @ [CHR 0xEB, CHR 0xA5, CHR 0xBC] @ '' '' @ [CHR 0xEC, CHR 0xB0, CHR 0xBE, CHR 0xEC, CHR 0x9D, CHR 0x84] @ '' '' @ [CHR 0xEC, CHR 0x88, CHR 0x98] @ '' '' @ [CHR 0xEC, CHR 0x97, CHR 0x86, CHR 0xEC, CHR 0x9D, CHR 0x8C]"

definition hours :: string where
  "hours = [CHR 0xEC, CHR 0x8B, CHR 0x9C, CHR 0xEA, CHR 0xB0, CHR 0x84]"

definition tracking_active_html :: string where
  "tracking_active_html = ''<span class='' @ [CHR 0x22] @ ''tracking-icon'' @ [CHR 0x22] @ ''>'' @ [CHR 0xF0, CHR 0x9F, CHR 0x94, CHR 0xB4] @ ''</span><span class='' @ [CHR 0x22] @ ''tracking-text'' @ [CHR 0x22] @ ''>'' @ [CHR 0xEC, CHR 0xB6, CHR 0x94, CHR 0xEC, CHR 0xA0, CHR 0x81] @ '' '' @ [CHR 0xEC, CHR 0xA4, CHR 0x91] @ ''...</span>''"

definition tracking_idle_html :: string where
  "tracking_idle_html = ''<span class='' @ [CHR 0x22] @ ''tracking-icon'' @ [CHR 0x22] @ ''>'' @ [CHR 0xE2, CHR 0x8F, CHR 0xB1, CHR 0xEF, CHR 0xB8, CHR 0x8F] @ ''</span><span class='' @ [CHR 0x22] @ ''tracking-text'' @ [CHR 0x22] @ ''>'' @ [CHR 0xEB, CHR 0x8C, CHR 0x80, CHR 0xEA, CHR 0xB8, CHR 0xB0] @ '' '' @ [CHR 0xEC, CHR 0xA4, CHR 0x91] @ ''</span>''"

definition tracking_started :: string where
  "tracking_started = ''5'' @ [CHR 0xEB, CHR 0xB6, CHR 0x84] @ '' '' @ [CHR 0xEC, CHR 0xB6, CHR 0x94, CHR 0xEC, CHR 0xA0, CHR 0x81, CHR 0xEC, CHR 0x9D, CHR 0x84] @ '' '' @ [CHR 0xEC, CHR 0x8B, CHR 0x9C, CHR 0xEC, CHR 0x9E, CHR 0x91, CHR 0xED, CHR 0x95, CHR 0xA9, CHR 0xEB, CHR 0x8B, CHR 0x88, CHR 0xEB, CHR 0x8B, CHR 0xA4] @ ''.''"

definition start_failed :: string where
  "start_failed = [CHR 0xEC, CHR 0xB6, CHR 0x94, CHR 0xEC, CHR 0xA0, CHR 0x81] @ '' '' @ [CHR 0xEC, CHR 0x8B, CHR 0x9C, CHR 0xEC, CHR 0x9E, CHR 0x91] @ '' '' @ [CHR 0xEC, CHR 0x8B, CHR 0xA4, CHR 0xED, CHR 0x8C, CHR 0xA8] @ '': ''"

definition stop_failed :: string where
  "stop_failed = [CHR 0xEC, CHR 0xB6, CHR 0x94, CHR 0xEC, CHR 0xA0, CHR 0x81] @ '' '' @ [CHR 0xEC, CHR 0xA4, CHR 0x91, CHR 0xEC, CHR 0xA7, CHR 0x80] @ '' '' @ [CHR 0xEC, CHR 0x8B, CHR 0xA4, CHR 0xED, CHR 0x8C, CHR 0xA8] @ '': ''"

definition pdf_busy_html :: string where
  "pdf_busy_html = ''<span class='' @ [CHR 0x22] @ ''btn-icon'' @ [CHR 0x22] @ ''>'' @ [CHR 0xE2, CHR 0x8F, CHR 0xB3] @ ''</span> '' @ [CHR 0xEC, CHR 0x83, CHR 0x9D, CHR 0xEC, CHR 0x84, CHR 0xB1] @ '' '' @ [CHR 0xEC, CHR 0xA4, CHR 0x91] @ ''...''"

definition pdf_done :: string where
  "pdf_done = ''PDF'' @ [CHR 0xEA, CHR 0xB0, CHR 0x80] @ '' '' @ [CHR 0xEC, CHR 0x83, CHR 0x9D, CHR 0xEC, CHR 0x84, CHR 0xB1, CHR 0xEB, CHR 0x90, CHR 0x98, CHR 0xEC, CHR 0x97, CHR 0x88, CHR 0xEC, CHR 0x8A, CHR 0xB5, CHR 0xEB, CHR 0x8B, CHR 0x88, CHR 0xEB, CHR 0x8B, CHR 0xA4] @ ''. '' @ [CHR 0xEB, CHR 0x8B, CHR 0xA4, CHR 0xEC, CHR 0x9A, CHR 0xB4, CHR 0xEB, CHR 0xA1, CHR 0x9C, CHR 0xEB, CHR 0x93, CHR 0x9C, CHR 0xEB, CHR 0xA5, CHR 0xBC] @ '' '' @ [CHR 0xEC, CHR 0x8B, CHR 0x9C, CHR 0xEC, CHR 0x9E, CHR 0x91, CHR 0xED, CHR 0x95, CHR 0xA9, CHR 0xEB, CHR 0x8B, CHR 0x88, CHR 0xEB, CHR 0x8B, CHR 0xA4] @ ''.''"

definition pdf_failed :: string where
  "pdf_failed = ''PDF '' @ [CHR 0xEC, CHR 0x83, CHR 0x9D, CHR 0xEC, CHR 0x84, CHR 0xB1] @ '' '' @ [CHR 0xEC, CHR 0x8B, CHR 0xA4, CHR 0xED, CHR 0x8C, CHR 0xA8] @ '': ''"

definition pdf_idle_html :: string where
  "pdf_idle_html = ''<span class='' @ [CHR 0x22] @ ''btn-icon'' @ [CHR 0x22] @ ''>'' @ [CHR 0xF0, CHR 0x9F, CHR 0x93, CHR 0x84] @ ''</span> PDF '' @ [CHR 0xEC, CHR 0x83, CHR 0x9D, CHR 0xEC, CHR 0x84, CHR 0xB1]"

definition connected_text :: string where
  "connected_text = [CHR 0xEC, CHR 0x97, CHR 0xB0, CHR 0xEA, CHR 0xB2, CHR 0xB0, CHR 0xEB, CHR 0x90, CHR 0xA8]"

definition disconnected_text :: string where
  "disconnected_text = [CHR 0xEC, CHR 0x97, CHR 0xB0, CHR 0xEA, CHR 0xB2, CHR 0xB0] @ '' '' @ [CHR 0xEB, CHR 0x81, CHR 0x8A, CHR 0xEA, CHR 0xB9, CHR 0x80]"

text \<open>A template literal: fixed text and interpolated values, in order.\<close>

datatype part = Text string | Val jsval

fun part_text :: "runtime \<Rightarrow> part \<Rightarrow> string" where
  "part_text rt (Text s) = s"
| "part_text rt (Val v) = to_string rt v"

definition template :: "runtime \<Rightarrow> part list \<Rightarrow> jsval" where
  "template rt ps = Str (concat (map (part_text rt) ps))"

text \<open>Sequencing of reads that may raise.\<close>

definition and_then :: "error + 'a \<Rightarrow> ('a \<Rightarrow> error + 'b) \<Rightarrow> error + 'b" where
  "and_then r f = (case r of Inl e \<Rightarrow> Inl e | Inr v \<Rightarrow> f v)"

definition then_value :: "error + 'a \<Rightarrow> ('a \<Rightarrow> 'b) \<Rightarrow> error + 'b" where
  "then_value r f = (case r of Inl e \<Rightarrow> Inl e | Inr v \<Rightarrow> Inr (f v))"

text \<open>\<^verbatim>\<open>const x = e; ...\<close>\<close>

definition let_const :: "error + 'a \<Rightarrow> ('a \<Rightarrow> 's \<Rightarrow> 's outcome) \<Rightarrow> 's \<Rightarrow> 's outcome" where
  "let_const r body s = (case r of Inl e \<Rightarrow> Threw e s | Inr v \<Rightarrow> body v s)"

text \<open>\<^verbatim>\<open>v?.toFixed(f)\<close>\<close>

definition opt_toFixed :: "runtime \<Rightarrow> jsval \<Rightarrow> nat \<Rightarrow> error + jsval" where
  "opt_toFixed rt v f = (if nullish v then Inr Undefined else then_value (toFixed rt v f) Str)"

text \<open>\<^verbatim>\<open>document.getElementById(i).name = rhs\<close>, for a property or a path such as
  \<^verbatim>\<open>style.width\<close>, and the two operations on the class list.\<close>

definition set_prop :: "string \<Rightarrow> string \<Rightarrow> error + jsval \<Rightarrow> page \<Rightarrow> page outcome" where
  "set_prop i name rhs = assign (\<lambda>v p. p\<lparr>props := (props p)((i, name) := v)\<rparr>) rhs"

definition set_text :: "string \<Rightarrow> error + jsval \<Rightarrow> page \<Rightarrow> page outcome" where
  "set_text i rhs = set_prop i ''textContent'' rhs"

definition class_add :: "string \<Rightarrow> string \<Rightarrow> page \<Rightarrow> page outcome" where
  "class_add i c = set_prop i (''class '' @ c) (Inr (Bool True))"

definition class_remove :: "string \<Rightarrow> string \<Rightarrow> page \<Rightarrow> page outcome" where
  "class_remove i c = set_prop i (''class '' @ c) (Inr (Bool False))"

text \<open>\<^verbatim>\<open>container.innerHTML = ''\<close> and \<^verbatim>\<open>container.appendChild(e)\<close>\<close>

definition clear_children :: "string \<Rightarrow> page \<Rightarrow> page outcome" where
  "clear_children i p = Normal (p\<lparr>children := (children p)(i := [])\<rparr>)"

definition append_child :: "string \<Rightarrow> error + element \<Rightarrow> page \<Rightarrow> page outcome" where
  "append_child i rhs = assign (\<lambda>e p. p\<lparr>children := (children p)(i := children p i @ [e])\<rparr>) rhs"

text \<open>\<^verbatim>\<open>document.createElement(t)\<close>: nothing assigned yet.\<close>

definition createElement :: "string \<Rightarrow> element" where
  "createElement t = \<lparr>tagName = t, className = [], innerHTML = [], textContent = Undefined\<rparr>"

text \<open>\<^verbatim>\<open>xs.forEach(f)\<close>: only an array has the method.\<close>

fun forEach :: "jsval \<Rightarrow> (jsval \<Rightarrow> 's \<Rightarrow> 's outcome) \<Rightarrow> 's \<Rightarrow> 's outcome" where
  "forEach (Arr xs) f s = run (map f xs) s"
| "forEach Undefined f s = Threw (CannotRead Undefined ''forEach'') s"
| "forEach Null f s = Threw (CannotRead Null ''forEach'') s"
| "forEach v f s = Threw (NotAFunction v ''forEach'') s"

subsection \<open>\<^verbatim>\<open>formatSpeed\<close>, \<^verbatim>\<open>updateDiskPartitions\<close>, \<^verbatim>\<open>updateProcessTable\<close>\<close>

definition formatSpeed :: "runtime \<Rightarrow> jsval \<Rightarrow> error + jsval" where
  "formatSpeed rt kbps =
     (if js_ge (to_number rt kbps) 1000
      then Inr (template rt
             [Text (num_toFixed rt (js_div_by (to_number rt kbps) 1000) 2), Text '' Mbps''])
      else then_value (toFixed rt kbps 2) (\<lambda>t. template rt [Text t, Text '' Kbps'']))"

text \<open>\<^verbatim>\<open>device.replace(/\\\\/g, '')\<close>: every pair of backslashes goes, left to right.\<close>

fun drop_backslash_pairs :: "string \<Rightarrow> string" where
  "drop_backslash_pairs (a # b # cs) =
     (if a = CHR 0x5C \<and> b = CHR 0x5C then drop_backslash_pairs cs
      else a # drop_backslash_pairs (b # cs))"
| "drop_backslash_pairs cs = cs"

fun device_name :: "jsval \<Rightarrow> error + jsval" where
  "device_name (Str s) = Inr (Str (drop_backslash_pairs s))"
| "device_name Undefined = Inl (CannotRead Undefined ''replace'')"
| "device_name Null = Inl (CannotRead Null ''replace'')"
| "device_name v = Inl (NotAFunction v ''replace'')"

definition fillClass :: "runtime \<Rightarrow> jsval \<Rightarrow> string" where
  "fillClass rt usage =
     (if js_gt (to_number rt usage) 90 then ''danger''
      else if js_gt (to_number rt usage) 70 then ''warning''
      else [])"

definition partition_div :: "runtime \<Rightarrow> jsval \<Rightarrow> error + element" where
  "partition_div rt partn =
     and_then (get partn ''usage_percent'') (\<lambda>usage.
     and_then (and_then (get partn ''device'') device_name) (\<lambda>name.
     and_then (get partn ''used_gb'') (\<lambda>used.
     then_value (get partn ''total_gb'') (\<lambda>total.
       (createElement ''div'')
         \<lparr>className := ''disk-partition'',
          innerHTML := concat (map (part_text rt)
            [Text ([CHR 0x0A] @ ''            <span class='' @ [CHR 0x22] @ ''partition-name'' @ [CHR 0x22] @ ''>''),
             Val name,
             Text (''</span>'' @ [CHR 0x0A] @ ''            <div class='' @ [CHR 0x22] @ ''partition-bar'' @ [CHR 0x22] @ ''>'' @ [CHR 0x0A] @ ''                <div class='' @ [CHR 0x22] @ ''partition-fill ''),
             Text (fillClass rt usage),
             Text ([CHR 0x22] @ '' style='' @ [CHR 0x22] @ ''width: ''),
             Val usage,
             Text (''%'' @ [CHR 0x22] @ ''></div>'' @ [CHR 0x0A] @ ''            </div>'' @ [CHR 0x0A] @ ''            <span class='' @ [CHR 0x22] @ ''partition-info'' @ [CHR 0x22] @ ''>''),
             Val used,
             Text ''/'',
             Val total,
             Text ('' GB</span>'' @ [CHR 0x0A] @ ''        '')])\<rparr>))))"

definition updateDiskPartitions :: "runtime \<Rightarrow> jsval \<Rightarrow> page \<Rightarrow> page outcome" where
  "updateDiskPartitions rt partitions =
     run [
       clear_children ''diskPartitions'',
       forEach partitions (\<lambda>partn. append_child ''diskPartitions'' (partition_div rt partn))]"

text \<open>The template of a table row, with its three interpolated texts.\<close>

definition row_html :: "string \<Rightarrow> string \<Rightarrow> string \<Rightarrow> string" where
  "row_html name cpu mem =
     [CHR 0x0A] @ ''            <td>'' @ name @
     ''</td>'' @ [CHR 0x0A] @ ''            <td>'' @ cpu @
     ''%</td>'' @ [CHR 0x0A] @ ''            <td>'' @ mem @
     ''%</td>'' @ [CHR 0x0A] @ ''        ''"

definition process_row :: "runtime \<Rightarrow> jsval \<Rightarrow> error + element" where
  "process_row rt proc =
     and_then (get proc ''name'') (\<lambda>name.
     and_then (and_then (get proc ''cpu_percent'') (\<lambda>c. toFixed rt c 1)) (\<lambda>cpu.
     then_value (and_then (get proc ''memory_percent'') (\<lambda>m. toFixed rt m 1)) (\<lambda>mem.
       (createElement ''tr'')\<lparr>innerHTML := row_html (to_string rt name) cpu mem\<rparr>)))"

definition updateProcessTable :: "runtime \<Rightarrow> jsval \<Rightarrow> page \<Rightarrow> page outcome" where
  "updateProcessTable rt processes =
     run [
       clear_children ''processTableBody'',
       forEach processes (\<lambda>proc. append_child ''processTableBody'' (process_row rt proc))]"

subsection \<open>\<^verbatim>\<open>updateTrackingUI\<close>\<close>

definition updateTrackingUI :: "runtime \<Rightarrow> jsval \<Rightarrow> page \<Rightarrow> page outcome" where
  "updateTrackingUI rt tracking =
     let_const (get tracking ''is_tracking'') (\<lambda>is_tracking.
       if truthy is_tracking then
         run [
           set_prop ''trackingStatus'' ''innerHTML'' (Inr (Str tracking_active_html)),
           class_add ''trackingStatus'' ''active'',
           set_prop ''trackingProgressContainer'' ''style.display'' (Inr (Str ''flex'')),
           set_prop ''progressFill'' ''style.width''
             (then_value (get tracking ''progress'') (\<lambda>v. template rt [Val v, Text ''%''])),
           set_text ''dataPoints'' (get tracking ''data_points''),
           set_prop ''startTrackingBtn'' ''disabled'' (Inr (Bool True)),
           set_prop ''stopTrackingBtn'' ''disabled'' (Inr (Bool False)),
           set_prop ''generatePdfBtn'' ''disabled'' (Inr (Bool True))]
       else
         run [
           set_prop ''trackingStatus'' ''innerHTML'' (Inr (Str tracking_idle_html)),
           class_remove ''trackingStatus'' ''active'',
           let_const (get tracking ''data_points'') (\<lambda>data_points.
             if js_gt (to_number rt data_points) 0 then
               run [
                 set_prop ''trackingProgressContainer'' ''style.display'' (Inr (Str ''flex'')),
                 set_prop ''progressFill'' ''style.width'' (Inr (Str ''100%'')),
                 set_text ''dataPoints'' (get tracking ''data_points''),
                 set_prop ''generatePdfBtn'' ''disabled'' (Inr (Bool False))]
             else
               run [
                 set_prop ''trackingProgressContainer'' ''style.display'' (Inr (Str ''none'')),
                 set_prop ''generatePdfBtn'' ''disabled'' (Inr (Bool True))]),
           set_prop ''startTrackingBtn'' ''disabled'' (Inr (Bool False)),
           set_prop ''stopTrackingBtn'' ''disabled'' (Inr (Bool True))])"

subsection \<open>\<^verbatim>\<open>updateUI\<close>\<close>

text \<open>The function, by the sections its comments name.\<close>

definition updateUI_cpu :: "runtime \<Rightarrow> jsval \<Rightarrow> page \<Rightarrow> page outcome" where
  "updateUI_cpu rt stats =
     let_const (field_or stats ''cpu'' ''usage_percent'' (Num (Fin 0))) (\<lambda>cpuUsage.
       run [
         set_text ''cpuUsage''
           (then_value (toFixed rt cpuUsage 1) (\<lambda>t. template rt [Text t, Text ''%''])),
         set_text ''cpuGaugeValue'' (then_value (toFixed rt cpuUsage 0) Str),
         set_text ''cpuTemp''
           (and_then (field stats ''cpu'' ''temperature'') (\<lambda>c.
              if truthy c
              then and_then (get stats ''cpu'') (\<lambda>cpu.
                   and_then (get cpu ''temperature'') (\<lambda>t.
                   then_value (toFixed rt t 0) (\<lambda>d. template rt [Text d, Text deg_C])))
              else Inr (Str (''--'' @ deg_C)))),
         set_text ''cpuFreq''
           (and_then (field stats ''cpu'' ''frequency_current'') (\<lambda>c.
              if truthy c
              then and_then (get stats ''cpu'') (\<lambda>cpu.
                   and_then (get cpu ''frequency_current'') (\<lambda>f.
                   then_value (toFixed rt f 0) (\<lambda>d. template rt [Text d, Text '' MHz''])))
              else Inr (Str ''-- MHz''))),
         set_text ''cpuCores'' (field_or stats ''cpu'' ''core_count_logical'' (Str ''--''))])"

definition updateUI_memory :: "runtime \<Rightarrow> jsval \<Rightarrow> page \<Rightarrow> page outcome" where
  "updateUI_memory rt stats =
     let_const (field_or stats ''memory'' ''usage_percent'' (Num (Fin 0))) (\<lambda>memUsage.
       run [
         set_text ''memUsage''
           (then_value (toFixed rt memUsage 1) (\<lambda>t. template rt [Text t, Text ''%''])),
         set_prop ''memoryFill'' ''style.width'' (Inr (template rt [Val memUsage, Text ''%''])),
         set_text ''memUsed''
           (then_value (field_or stats ''memory'' ''used_gb'' (Num (Fin 0)))
              (\<lambda>v. template rt [Val v, Text '' GB''])),
         set_text ''memTotal''
           (then_value (field_or stats ''memory'' ''total_gb'' (Num (Fin 0)))
              (\<lambda>v. template rt [Val v, Text '' GB''])),
         set_text ''memAvailable''
           (then_value (field_or stats ''memory'' ''available_gb'' (Num (Fin 0)))
              (\<lambda>v. template rt [Val v, Text '' GB''])),
         set_text ''memSwap''
           (then_value (field_or stats ''memory'' ''swap_percent'' (Num (Fin 0)))
              (\<lambda>v. template rt [Val v, Text ''%'']))])"

text \<open>\<^verbatim>\<open>`${gpu.k?.toFixed(f) || 0}` + unit\<close>\<close>

definition gpu_fixed :: "runtime \<Rightarrow> jsval \<Rightarrow> string \<Rightarrow> nat \<Rightarrow> string \<Rightarrow> error + jsval" where
  "gpu_fixed rt gpu k f unit =
     and_then (get gpu k) (\<lambda>v.
     then_value (opt_toFixed rt v f) (\<lambda>t.
       template rt [Val (or_else t (Num (Fin 0))), Text unit]))"

definition updateUI_gpu :: "runtime \<Rightarrow> jsval \<Rightarrow> page \<Rightarrow> page outcome" where
  "updateUI_gpu rt stats =
     let_const (get stats ''gpu'') (\<lambda>g.
       if truthy g \<and> js_gt (to_number rt (own_prop g ''length'')) 0 then
         let_const (get_index0 g) (\<lambda>gpu.
           run [
             set_text ''gpuUsage'' (gpu_fixed rt gpu ''load_percent'' 1 ''%''),
             set_text ''gpuName''
               (then_value (get gpu ''name'') (\<lambda>n. or_else n (Str ''Unknown GPU''))),
             set_text ''gpuTemp''
               (and_then (get gpu ''temperature'') (\<lambda>c.
                  if truthy c
                  then then_value (get gpu ''temperature'')
                         (\<lambda>t. template rt [Val t, Text deg_C])
                  else Inr (Str (''--'' @ deg_C)))),
             set_text ''gpuMemory'' (gpu_fixed rt gpu ''memory_used_mb'' 0 '' MB''),
             set_text ''gpuMemPercent'' (gpu_fixed rt gpu ''memory_percent'' 1 ''%'')])
       else
         run [
           set_text ''gpuUsage'' (Inr (Str ''N/A'')),
           set_text ''gpuName'' (Inr (Str gpu_not_found))])"

definition updateUI_network :: "runtime \<Rightarrow> jsval \<Rightarrow> page \<Rightarrow> page outcome" where
  "updateUI_network rt stats =
     run [
       set_text ''netUpload''
         (and_then (field_or stats ''network'' ''upload_speed_kbps'' (Num (Fin 0)))
            (formatSpeed rt)),
       set_text ''netDownload''
         (and_then (field_or stats ''network'' ''download_speed_kbps'' (Num (Fin 0)))
            (formatSpeed rt)),
       set_text ''netTotalSent''
         (then_value (field_or stats ''network'' ''total_sent_gb'' (Num (Fin 0)))
            (\<lambda>v. template rt [Val v, Text '' GB''])),
       set_text ''netTotalRecv''
         (then_value (field_or stats ''network'' ''total_recv_gb'' (Num (Fin 0)))
            (\<lambda>v. template rt [Val v, Text '' GB'']))]"

definition updateUI_disk :: "runtime \<Rightarrow> jsval \<Rightarrow> page \<Rightarrow> page outcome" where
  "updateUI_disk rt stats =
     run [
       let_const (field_or stats ''disk'' ''partitions'' (Arr [])) (updateDiskPartitions rt),
       set_text ''diskRead''
         (then_value (field_or stats ''disk'' ''io_read_speed_mbps'' (Num (Fin 0)))
            (\<lambda>v. template rt [Val v, Text '' MB/s''])),
       set_text ''diskWrite''
         (then_value (field_or stats ''disk'' ''io_write_speed_mbps'' (Num (Fin 0)))
            (\<lambda>v. template rt [Val v, Text '' MB/s'']))]"

definition updateUI_process :: "runtime \<Rightarrow> jsval \<Rightarrow> page \<Rightarrow> page outcome" where
  "updateUI_process rt stats =
     let_const (then_value (get stats ''processes'') (\<lambda>v. or_else v (Arr [])))
       (updateProcessTable rt)"

definition updateUI_system :: "runtime \<Rightarrow> jsval \<Rightarrow> page \<Rightarrow> page outcome" where
  "updateUI_system rt stats =
     set_text ''systemUptime''
       (then_value (field_or stats ''system'' ''uptime_hours'' (Num (Fin 0)))
          (\<lambda>v. template rt [Text ''Uptime: '', Val v, Text hours]))"

definition updateUI_tracking :: "runtime \<Rightarrow> jsval \<Rightarrow> page \<Rightarrow> page outcome" where
  "updateUI_tracking rt stats =
     let_const (get stats ''tracking'') (\<lambda>tracking.
       if truthy tracking then updateTrackingUI rt tracking else Normal)"

definition updateUI :: "runtime \<Rightarrow> jsval \<Rightarrow> page \<Rightarrow> page outcome" where
  "updateUI rt stats =
     run [
       updateUI_cpu rt stats,
       updateUI_memory rt stats,
       updateUI_gpu rt stats,
       updateUI_network rt stats,
       updateUI_disk rt stats,
       updateUI_process rt stats,
       updateUI_system rt stats,
       updateUI_tracking rt stats]"

subsection \<open>Notifications and the three requests\<close>

text \<open>
  \<^verbatim>\<open>showToast(message, type)\<close> appends a toast; the two timers that fade and remove
  it some three seconds later are outside the model, so the container here lists every
  toast shown, oldest first.
\<close>

definition toast :: "jsval \<Rightarrow> string \<Rightarrow> element" where
  "toast message type =
     (createElement ''div'')\<lparr>className := ''toast '' @ type, textContent := message\<rparr>"

definition showToast :: "error + jsval \<Rightarrow> string \<Rightarrow> page \<Rightarrow> page outcome" where
  "showToast message type =
     append_child ''toastContainer'' (then_value message (\<lambda>m. toast m type))"

text \<open>The page with one more toast, and nothing else changed.\<close>

definition with_toast :: "element \<Rightarrow> page \<Rightarrow> page" where
  "with_toast t p =
     p\<lparr>children := (children p)(''toastContainer'' := children p ''toastContainer'' @ [t])\<rparr>"

text \<open>
  What \<^verbatim>\<open>await fetch(...)\<close> followed by \<^verbatim>\<open>await response.json()\<close> gives: the
  parsed body, or a rejection with its error.
\<close>

datatype response = Json jsval | Failed error

text \<open>\<^verbatim>\<open>try { body } catch (error) { handler(error) }\<close>\<close>

definition try_catch ::
  "('s \<Rightarrow> 's outcome) \<Rightarrow> (error \<Rightarrow> 's \<Rightarrow> 's outcome) \<Rightarrow> 's \<Rightarrow> 's outcome" where
  "try_catch body handler s =
     (case body s of Normal s' \<Rightarrow> Normal s' | Threw e s' \<Rightarrow> handler e s')"

text \<open>The body of each \<^verbatim>\<open>try\<close>, from the point where the response has arrived.\<close>

fun received :: "response \<Rightarrow> (jsval \<Rightarrow> 's \<Rightarrow> 's outcome) \<Rightarrow> 's \<Rightarrow> 's outcome" where
  "received (Json data) body s = body data s"
| "received (Failed e) body s = Threw e s"

definition startTracking :: "runtime \<Rightarrow> response \<Rightarrow> page \<Rightarrow> page outcome" where
  "startTracking rt r =
     try_catch
       (received r (\<lambda>data.
          let_const (get data ''status'') (\<lambda>status.
            if status = Str ''started''
            then showToast (Inr (Str tracking_started)) ''success''
            else showToast (get data ''message'') ''error'')))
       (\<lambda>error. showToast (Inr (Str (start_failed @ error_message rt error))) ''error'')"

definition stopTracking :: "runtime \<Rightarrow> response \<Rightarrow> page \<Rightarrow> page outcome" where
  "stopTracking rt r =
     try_catch
       (received r (\<lambda>data. showToast (get data ''message'') ''info''))
       (\<lambda>error. showToast (Inr (Str (stop_failed @ error_message rt error))) ''error'')"

text \<open>
  \<^verbatim>\<open>generatePDF\<close> runs in two steps with other handlers free to run in between: up
  to the first \<^verbatim>\<open>await\<close>, and from the arrival of the response on.  A download
  is the link the script creates and clicks, by its address and its file name.
\<close>

definition generatePDF_begin :: "page \<Rightarrow> page outcome" where
  "generatePDF_begin =
     run [
       set_prop ''generatePdfBtn'' ''disabled'' (Inr (Bool True)),
       set_prop ''generatePdfBtn'' ''innerHTML'' (Inr (Str pdf_busy_html))]"

definition click_download :: "runtime \<Rightarrow> jsval \<Rightarrow> page \<Rightarrow> page outcome" where
  "click_download rt filename p =
     Normal (p\<lparr>downloads :=
       downloads p @ [(''/api/download-pdf/'' @ to_string rt filename, filename)]\<rparr>)"

text \<open>\<^verbatim>\<open>finally\<close>: the last two statements run whether the rest completed or raised,
  and an error the \<^verbatim>\<open>catch\<close> handler did not end goes on after them.\<close>

definition try_finally ::
  "('s \<Rightarrow> 's outcome) \<Rightarrow> ('s \<Rightarrow> 's outcome) \<Rightarrow> 's \<Rightarrow> 's outcome" where
  "try_finally body final s =
     (case body s of
        Normal s' \<Rightarrow> final s'
      | Threw e s' \<Rightarrow> (case final s' of Normal s'' \<Rightarrow> Threw e s'' | Threw e' s'' \<Rightarrow> Threw e' s''))"

definition generatePDF_end :: "runtime \<Rightarrow> response \<Rightarrow> page \<Rightarrow> page outcome" where
  "generatePDF_end rt r =
     try_finally
       (try_catch
          (received r (\<lambda>data.
             let_const (get data ''status'') (\<lambda>status.
               if status = Str ''success''
               then run [
                      showToast (Inr (Str pdf_done)) ''success'',
                      let_const (get data ''filename'') (click_download rt)]
               else showToast (get data ''message'') ''error'')))
          (\<lambda>error. showToast (Inr (Str (pdf_failed @ error_message rt error))) ''error''))
       (run [
          set_prop ''generatePdfBtn'' ''innerHTML'' (Inr (Str pdf_idle_html)),
          set_prop ''generatePdfBtn'' ''disabled'' (Inr (Bool False))])"

subsection \<open>The handlers\<close>

text \<open>
  Everything the script registers: the four socket events, the clock, the three buttons
  (\<^verbatim>\<open>generatePDF\<close> in its two steps) and the answer to the status request made
  when the page has loaded, whose errors \<^verbatim>\<open>.catch\<close> logs and ends.
\<close>

datatype event =
    Connect
  | Disconnect
  | StatsUpdate string jsval
  | TrackingComplete jsval
  | Clock string
  | StartTracking response
  | StopTracking response
  | GeneratePdfClicked
  | GeneratePdfAnswered response
  | InitialStatus response

definition on_connect :: "page \<Rightarrow> page outcome" where
  "on_connect =
     run [
       class_add ''connectionStatus .status-dot'' ''connected'',
       set_text ''connectionStatus .status-text'' (Inr (Str connected_text))]"

definition on_disconnect :: "page \<Rightarrow> page outcome" where
  "on_disconnect =
     run [
       class_remove ''connectionStatus .status-dot'' ''connected'',
       class_add ''connectionStatus .status-dot'' ''disconnected'',
       set_text ''connectionStatus .status-text'' (Inr (Str disconnected_text))]"

definition on_stats_update :: "runtime \<Rightarrow> string \<Rightarrow> jsval \<Rightarrow> page \<Rightarrow> page outcome" where
  "on_stats_update rt now stats = run [updateUI rt stats, updateChartData rt now stats]"

definition on_tracking_complete :: "jsval \<Rightarrow> page \<Rightarrow> page outcome" where
  "on_tracking_complete data =
     run [
       showToast (get data ''message'') ''success'',
       set_prop ''generatePdfBtn'' ''disabled'' (Inr (Bool False))]"

definition updateTime :: "string \<Rightarrow> page \<Rightarrow> page outcome" where
  "updateTime now = set_text ''currentTime'' (Inr (Str now))"

definition on_initial_status :: "runtime \<Rightarrow> response \<Rightarrow> page \<Rightarrow> page outcome" where
  "on_initial_status rt r =
     try_catch (received r (updateTrackingUI rt)) (\<lambda>err. Normal)"

fun handle :: "runtime \<Rightarrow> event \<Rightarrow> page \<Rightarrow> page outcome" where
  "handle rt Connect = on_connect"
| "handle rt Disconnect = on_disconnect"
| "handle rt (StatsUpdate now stats) = on_stats_update rt now stats"
| "handle rt (TrackingComplete data) = on_tracking_complete data"
| "handle rt (Clock now) = updateTime now"
| "handle rt (StartTracking r) = startTracking rt r"
| "handle rt (StopTracking r) = stopTracking rt r"
| "handle rt GeneratePdfClicked = generatePDF_begin"
| "handle rt (GeneratePdfAnswered r) = generatePDF_end rt r"
| "handle rt (InitialStatus r) = on_initial_status rt r"

text \<open>The page after a sequence of events; an error a handler lets through ends that
  handler only.\<close>

fun handle_all :: "runtime \<Rightarrow> event list \<Rightarrow> page \<Rightarrow> page" where
  "handle_all rt [] p = p"
| "handle_all rt (e # es) p = handle_all rt es (state_of (handle rt e p))"

subsection \<open>What a statement leaves alone\<close>

text \<open>
  A statement keeps a property of the document when the property holds the same value
  after the statement as before it, whether the statement completed or raised.
\<close>

definition keeps :: "string \<times> string \<Rightarrow> (page \<Rightarrow> page outcome) \<Rightarrow> bool" where
  "keeps k c = (\<forall>p. props (state_of (c p)) k = props p k)"

text \<open>The page shows a tracking session as running; the PDF button; the progress bar.\<close>

definition shows_tracking :: "page \<Rightarrow> bool" where
  "shows_tracking p = (props p (''trackingStatus'', ''class active'') = Bool True)"

definition pdf_disabled :: "page \<Rightarrow> jsval" where
  "pdf_disabled p = props p (''generatePdfBtn'', ''disabled'')"

definition progress_width :: "page \<Rightarrow> jsval" where
  "progress_width p = props p (''progressFill'', ''style.width'')"

definition text_of :: "page \<Rightarrow> string \<Rightarrow> jsval" where
  "text_of p i = props p (i, ''textContent'')"

text \<open>A document in which no property has been assigned yet, for closed examples.\<close>

definition blank_document :: "string \<times> string \<Rightarrow> jsval" where
  "blank_document k = Undefined"

definition blank_page :: page where
  "blank_page = initial_page blank_document"

text \<open>The two handlers the statement about the other handlers sets aside: the
  \<^verbatim>\<open>tracking_complete\<close> handler itself and the arrival of the answer to a PDF request.\<close>

fun set_aside :: "event \<Rightarrow> bool" where
  "set_aside (TrackingComplete data) = True"
| "set_aside (GeneratePdfAnswered r) = True"
| "set_aside e = False"

text \<open>A payload that reports a running session and nothing else, and a page on which the
  PDF request was started just before that payload arrived.\<close>

definition running_payload :: jsval where
  "running_payload =
     Obj [(''tracking'',
       Obj [(''is_tracking'', Bool True), (''progress'', Num (Fin 10)),
            (''data_points'', Num (Fin 30))])]"

definition page_awaiting_pdf :: page where
  "page_awaiting_pdf =
     handle_all example_runtime
       [GeneratePdfClicked, StatsUpdate ''12:00:00'' running_payload] blank_page"

text \<open>An answer to the PDF request, and the page once it has arrived.\<close>

definition pdf_answer :: response where
  "pdf_answer = Json (Obj [(''status'', Str ''success''), (''filename'', Str ''report.pdf'')])"

definition page_after_pdf :: page where
  "page_after_pdf =
     state_of (handle example_runtime (GeneratePdfAnswered pdf_answer) page_awaiting_pdf)"

text \<open>
  What the claims say of the process table, in their own words: an entry with numeric
  percentages; the row such an entry is to give; a text with exactly one decimal place.
\<close>

fun is_number :: "jsval \<Rightarrow> bool" where
  "is_number (Num n) = True"
| "is_number v = False"

fun number_of :: "jsval \<Rightarrow> jsnum" where
  "number_of (Num n) = n"
| "number_of v = NaN"

definition process_entry :: "jsval \<Rightarrow> bool" where
  "process_entry v =
     (\<not> nullish v \<and> is_number (own_prop v ''cpu_percent'') \<and>
      is_number (own_prop v ''memory_percent''))"

definition expected_row :: "runtime \<Rightarrow> jsval \<Rightarrow> element" where
  "expected_row rt v =
     (createElement ''tr'')
       \<lparr>innerHTML :=
          row_html (to_string rt (own_prop v ''name''))
            (num_toFixed rt (number_of (own_prop v ''cpu_percent'')) 1)
            (num_toFixed rt (number_of (own_prop v ''memory_percent'')) 1)\<rparr>"

definition is_digit :: "char \<Rightarrow> bool" where
  "is_digit c = (c \<in> set ''0123456789'')"

fun without_sign :: "string \<Rightarrow> string" where
  "without_sign (c # cs) = (if c = CHR ''-'' then cs else c # cs)"
| "without_sign [] = []"

definition one_decimal :: "string \<Rightarrow> bool" where
  "one_decimal s =
     (case rev (without_sign s) of
        d # pt # ws \<Rightarrow> is_digit d \<and> pt = CHR ''.'' \<and> ws \<noteq> [] \<and> list_all is_digit ws
      | _ \<Rightarrow> False)"

text \<open>A table of two processes, for closed examples.\<close>

definition two_processes :: jsval where
  "two_processes =
     Arr [Obj [(''name'', Str ''python''), (''cpu_percent'', Num (Fin (25 / 2))),
               (''memory_percent'', Num (Fin 3))],
          Obj [(''name'', Str ''node''), (''cpu_percent'', Num (Fin (1 / 20))),
               (''memory_percent'', Num (Fin (799 / 100)))]]"

text \<open>Payloads for closed examples: no GPU; readings of zero degrees.\<close>

definition no_gpu_payload :: jsval where
  "no_gpu_payload =
     Obj [(''cpu'', Obj [(''usage_percent'', Num (Fin (85 / 2)))]), (''gpu'', Arr [])]"

definition zero_degrees_payload :: jsval where
  "zero_degrees_payload =
     Obj [(''cpu'', Obj [(''usage_percent'', Num (Fin 12)), (''temperature'', Num (Fin 0))]),
          (''gpu'', Arr [Obj [(''name'', Str ''gpu0''), (''load_percent'', Num (Fin 7)),
                              (''temperature'', Num (Fin 0))]])]"

text \<open>A value that \<^verbatim>\<open>v || 0\<close> turns into a number: a number, or anything falsy.\<close>

definition number_or_falsy :: "jsval \<Rightarrow> bool" where
  "number_or_falsy v = is_number (or_else v (Num (Fin 0)))"

text \<open>
  Two payloads with the same readings for closed examples: one names the disk speeds and
  the CPU details as the specification's data model does, the other as the script reads
  them.
\<close>

definition spec_named_payload :: jsval where
  "spec_named_payload =
     Obj [(''cpu'', Obj [(''usage_percent'', Num (Fin (85 / 2))),
                         (''temperature_c'', Num (Fin 55)),
                         (''frequency_mhz'', Num (Fin 3000)),
                         (''logical_cores'', Num (Fin 8))]),
          (''disk'', Obj [(''read_speed_mbps'', Num (Fin 5)),
                          (''write_speed_mbps'', Num (Fin 7)),
                          (''partitions'', Arr [])])]"

definition script_named_payload :: jsval where
  "script_named_payload =
     Obj [(''cpu'', Obj [(''usage_percent'', Num (Fin (85 / 2))),
                         (''temperature'', Num (Fin 55)),
                         (''frequency_current'', Num (Fin 3000)),
                         (''core_count_logical'', Num (Fin 8))]),
          (''disk'', Obj [(''io_read_speed_mbps'', Num (Fin 5)),
                          (''io_write_speed_mbps'', Num (Fin 7)),
                          (''partitions'', Arr [])])]"

text \<open>
  The sum of two numbers as \<^verbatim>\<open>a + b\<close> computes it; the script itself never adds
  the two entries of the gauge, the claim about their sum does.
\<close>

fun js_add :: "jsnum \<Rightarrow> jsnum \<Rightarrow> jsnum" where
  "js_add (Fin a) (Fin b) = round_double (a + b)"
| "js_add NaN y = NaN"
| "js_add x NaN = NaN"
| "js_add PInf NInf = NaN"
| "js_add NInf PInf = NaN"
| "js_add PInf y = PInf"
| "js_add x PInf = PInf"
| "js_add NInf y = NInf"
| "js_add x NInf = NInf"

text \<open>A payload whose CPU usage is the double \<open>2 ^ 60\<close>, for a closed example.\<close>

definition huge_usage_payload :: jsval where
  "huge_usage_payload = Obj [(''cpu'', Obj [(''usage_percent'', Num (Fin (2 ^ 60)))])]"

text \<open>A payload whose CPU usage is the double nearest to 0.1.\<close>

definition tenth_usage_payload :: jsval where
  "tenth_usage_payload =
     Obj [(''cpu'', Obj [(''usage_percent'', Num (Fin (3602879701896397 / 2 ^ 55)))])]"

section \<open>Properties\<close>

subsection \<open>Blocks and reads\<close>

lemma run_append:
  "run (xs @ ys) p = (case run xs p of Normal q \<Rightarrow> run ys q | Threw e q \<Rightarrow> Threw e q)"
  by (induction xs arbitrary: p) (auto split: outcome.splits)

lemma field_or_ok:
  "\<not> nullish stats \<Longrightarrow> field_or stats a b d = Inr (or_else (opt_get (own_prop stats a) b) d)"
  by (simp add: field_or_def field_def get_def)

lemma new_sample_ok:
  "\<not> nullish stats \<Longrightarrow> \<exists>v. new_sample now stats s = Inr v"
  by (cases s) (simp_all add: field_or_ok gpu_load_def get_def)

lemma new_sample_val:
  "\<not> nullish stats \<Longrightarrow> new_sample now stats s = Inr (sample_val now stats s)"
  using new_sample_ok[of stats now s] by (auto simp: sample_val_def)

subsection \<open>The chart history\<close>

lemma add_samples_ok:
  assumes "\<not> nullish stats"
  shows "run (add_samples now stats) p =
     Normal (p\<lparr>chartData := (\<lambda>s. chartData p s @ [sample_val now stats s])\<rparr>)"
proof -
  have eq: "(\<lambda>s. chartData p s @ [sample_val now stats s]) =
    (chartData p)(Labels := chartData p Labels @ [sample_val now stats Labels],
       Cpu := chartData p Cpu @ [sample_val now stats Cpu],
       Memory := chartData p Memory @ [sample_val now stats Memory],
       Gpu := chartData p Gpu @ [sample_val now stats Gpu],
       NetworkUp := chartData p NetworkUp @ [sample_val now stats NetworkUp],
       NetworkDown := chartData p NetworkDown @ [sample_val now stats NetworkDown],
       DiskRead := chartData p DiskRead @ [sample_val now stats DiskRead],
       DiskWrite := chartData p DiskWrite @ [sample_val now stats DiskWrite])"
    by (rule ext) (case_tac s; simp)
  show ?thesis
    unfolding eq
    by (simp add: add_samples_def push_def assign_def new_sample_val[OF assms]
          del: new_sample.simps)
qed

lemma keep_max_ok:
  "keep_max p = Normal (p\<lparr>chartData :=
      (\<lambda>s. if MAX_DATA_POINTS < length (chartData p Labels)
           then tl (chartData p s) else chartData p s)\<rparr>)"
proof (cases "MAX_DATA_POINTS < length (chartData p Labels)")
  case True
  have eq: "(\<lambda>s. tl (chartData p s)) =
    (chartData p)(Labels := tl (chartData p Labels), Cpu := tl (chartData p Cpu),
      Memory := tl (chartData p Memory), Gpu := tl (chartData p Gpu),
      NetworkUp := tl (chartData p NetworkUp), NetworkDown := tl (chartData p NetworkDown),
      DiskRead := tl (chartData p DiskRead), DiskWrite := tl (chartData p DiskWrite))"
    by (rule ext) (case_tac s; simp)
  from True show ?thesis
    by (simp add: keep_max_def if_then_def shift_def eq)
next
  case False
  then show ?thesis by (simp add: keep_max_def if_then_def)
qed

lemma refresh_charts_ok:
  "\<exists>q. run refresh_charts p = Normal q \<and> chartData q = chartData p"
  by (simp add: refresh_charts_def set_labels_def set_dataset_def)

lemma update_gauge_ok:
  "\<not> nullish stats \<Longrightarrow> \<exists>q. update_gauge rt stats p = Normal q \<and> chartData q = chartData p"
  by (simp add: update_gauge_def assign_def field_or_ok)

lemma updateChartData_ok:
  assumes "\<not> nullish stats"
  shows "\<exists>q. updateChartData rt now stats p = Normal q \<and>
    chartData q = (\<lambda>s. if MAX_DATA_POINTS \<le> length (chartData p Labels)
         then tl (chartData p s @ [sample_val now stats s])
         else chartData p s @ [sample_val now stats s])"
proof -
  let ?p1 = "p\<lparr>chartData := (\<lambda>s. chartData p s @ [sample_val now stats s])\<rparr>"
  let ?p2 = "?p1\<lparr>chartData :=
      (\<lambda>s. if MAX_DATA_POINTS < length (chartData ?p1 Labels)
           then tl (chartData ?p1 s) else chartData ?p1 s)\<rparr>"
  obtain p3 where p3: "run refresh_charts ?p2 = Normal p3" "chartData p3 = chartData ?p2"
    using refresh_charts_ok[of ?p2] by blast
  obtain p4 where p4: "update_gauge rt stats p3 = Normal p4" "chartData p4 = chartData p3"
    using update_gauge_ok[OF assms, of rt p3] by blast
  have "updateChartData rt now stats p = Normal p4"
    unfolding updateChartData_def
    by (simp only: run_append add_samples_ok[OF assms] outcome.case run.simps keep_max_ok p3 p4)
  moreover have "chartData p4 = (\<lambda>s. if MAX_DATA_POINTS \<le> length (chartData p Labels)
         then tl (chartData p s @ [sample_val now stats s])
         else chartData p s @ [sample_val now stats s])"
    by (rule ext) (simp add: p4 p3 less_Suc_eq_le)
  ultimately show ?thesis by blast
qed

lemma tl_drop_snoc:
  "n \<le> length xs \<Longrightarrow> tl (drop n xs @ [v]) = drop (Suc n) (xs @ [v])"
proof (induction xs arbitrary: n)
  case Nil
  then show ?case by simp
next
  case (Cons x xs)
  then show ?case by (cases n) simp_all
qed

lemma calls_snoc:
  "updateChartData_calls rt (cs @ [(now, stats)]) p =
     state_of (updateChartData rt now stats (updateChartData_calls rt cs p))"
  by (induction cs arbitrary: p) auto

text \<open>Every array holds the last 60 samples of its own, in order.\<close>

lemma calls_window:
  assumes "\<forall>c \<in> set cs. \<not> nullish (snd c)"
  shows "chartData (updateChartData_calls rt cs (initial_page d)) s =
     drop (length cs - MAX_DATA_POINTS) (samples cs s)"
  using assms
proof (induction cs arbitrary: s rule: rev_induct)
  case Nil
  then show ?case by (simp add: initial_page_def samples_def)
next
  case (snoc c cs)
  obtain now stats where c: "c = (now, stats)" by (cases c)
  let ?p = "updateChartData_calls rt cs (initial_page d)"
  from snoc.prems c have ok: "\<not> nullish stats" by simp
  from snoc have IH: "\<And>s. chartData ?p s = drop (length cs - MAX_DATA_POINTS) (samples cs s)"
    by simp
  obtain q where q: "updateChartData rt now stats ?p = Normal q"
    "chartData q = (\<lambda>s. if MAX_DATA_POINTS \<le> length (chartData ?p Labels)
         then tl (chartData ?p s @ [sample_val now stats s])
         else chartData ?p s @ [sample_val now stats s])"
    using updateChartData_ok[OF ok, of rt now ?p] by blast
  have len: "length (samples cs s) = length cs" for s by (simp add: samples_def)
  have snoc_s: "samples (cs @ [c]) s = samples cs s @ [sample_val now stats s]"
    by (simp add: samples_def c)
  have after: "chartData (updateChartData_calls rt (cs @ [c]) (initial_page d)) s = chartData q s"
    by (simp add: c calls_snoc q(1))
  show ?case
  proof (cases "MAX_DATA_POINTS \<le> length cs")
    case True
    then have "MAX_DATA_POINTS \<le> length (chartData ?p Labels)"
      by (simp add: IH len MAX_DATA_POINTS_def)
    then have "chartData q s =
        tl (drop (length cs - MAX_DATA_POINTS) (samples cs s) @ [sample_val now stats s])"
      by (simp add: q IH)
    also have "\<dots> =
        drop (Suc (length cs - MAX_DATA_POINTS)) (samples cs s @ [sample_val now stats s])"
      by (rule tl_drop_snoc) (simp add: len)
    finally have "chartData q s =
        drop (Suc (length cs - MAX_DATA_POINTS)) (samples (cs @ [c]) s)"
      by (simp only: snoc_s)
    moreover have "length (cs @ [c]) - MAX_DATA_POINTS = Suc (length cs - MAX_DATA_POINTS)"
      using True by simp
    ultimately show ?thesis using after by simp
  next
    case False
    then have "\<not> MAX_DATA_POINTS \<le> length (chartData ?p Labels)"
      by (simp add: IH len)
    then have "chartData q s = samples cs s @ [sample_val now stats s]"
      using False by (simp add: q IH)
    then show ?thesis using False after by (simp add: snoc_s)
  qed
qed

text \<open>
  C8.  Start from the page as \<^verbatim>\<open>initCharts\<close> leaves it and call
  \<^verbatim>\<open>updateChartData\<close> any number of times, each time with a payload that is not
  \<^verbatim>\<open>null\<close> or \<^verbatim>\<open>undefined\<close> (the socket handler, the only caller, reaches the
  call only after \<^verbatim>\<open>updateUI\<close> has read the payload).  Then the eight arrays of
  \<^verbatim>\<open>chartData\<close> have the same length, that length is the number of calls up to the
  cap of 60 and never more, and a call made when the arrays hold 60 samples completes and
  leaves in every array its old contents without the oldest sample, followed by the new
  sample.
\<close>

theorem chartData_bounded_window:
  assumes "\<forall>c \<in> set calls. \<not> nullish (snd c)"
  shows "let p = updateChartData_calls rt calls (initial_page d) in
     (\<forall>s. length (chartData p s) = length (chartData p Labels)) \<and>
     length (chartData p Labels) \<le> MAX_DATA_POINTS \<and>
     length (chartData p Labels) = min (length calls) MAX_DATA_POINTS \<and>
     (\<forall>now stats. \<not> nullish stats \<longrightarrow> length (chartData p Labels) = MAX_DATA_POINTS \<longrightarrow>
        completes (updateChartData rt now stats p) \<and>
        (\<forall>s. chartData (state_of (updateChartData rt now stats p)) s =
              tl (chartData p s) @ [sample_val now stats s]))"
proof -
  let ?p = "updateChartData_calls rt calls (initial_page d)"
  have len: "length (chartData ?p s) = min (length calls) MAX_DATA_POINTS" for s
    by (simp add: calls_window[OF assms] samples_def min_def)
  have evict: "completes (updateChartData rt now stats ?p) \<and>
        (\<forall>s. chartData (state_of (updateChartData rt now stats ?p)) s =
              tl (chartData ?p s) @ [sample_val now stats s])"
    if ok: "\<not> nullish stats" and full: "length (chartData ?p Labels) = MAX_DATA_POINTS"
    for now stats
  proof -
    obtain q where q: "updateChartData rt now stats ?p = Normal q"
      "chartData q = (\<lambda>s. if MAX_DATA_POINTS \<le> length (chartData ?p Labels)
           then tl (chartData ?p s @ [sample_val now stats s])
           else chartData ?p s @ [sample_val now stats s])"
      using updateChartData_ok[OF ok, of rt now ?p] by blast
    have ne: "chartData ?p s \<noteq> []" for s
      using len[of s] len[of Labels] full by (auto simp: MAX_DATA_POINTS_def)
    show ?thesis by (simp add: q full ne)
  qed
  show ?thesis
    unfolding Let_def using len evict by simp
qed

theorem chartData_bounded_window_witness:
  "let p = updateChartData_calls example_runtime (replicate 60 (''12:00:00'', Obj []))
             blank_page
   in length (chartData p Cpu) = 60 \<and> length (chartData p Labels) = 60 \<and>
      chartData (state_of (updateChartData example_runtime ''12:01:00'' (Obj []) p)) Cpu =
        tl (chartData p Cpu) @ [Num (Fin 0)]"
proof -
  define p where "p = updateChartData_calls example_runtime
     (replicate 60 (''12:00:00'', Obj [])) blank_page"
  have h: "\<forall>c \<in> set (replicate 60 (''12:00:00'', Obj [])). \<not> nullish (snd c)"
    by (simp add: nullish_def)
  have v: "sample_val ''12:01:00'' (Obj []) Cpu = Num (Fin 0)"
    by (simp add: sample_val_def field_or_def field_def get_def nullish_def opt_get_def
          or_else_def)
  have ok: "\<not> nullish (Obj [])"
    by (simp add: nullish_def)
  note T = chartData_bounded_window[OF h, of example_runtime blank_document,
      unfolded Let_def, folded blank_page_def, folded p_def]
  from T have same: "length (chartData p Cpu) = length (chartData p Labels)"
    by blast
  from T have full: "length (chartData p Labels) = MAX_DATA_POINTS"
    by (simp add: MAX_DATA_POINTS_def)
  from T ok full
  have "chartData (state_of (updateChartData example_runtime ''12:01:00'' (Obj []) p)) Cpu =
      tl (chartData p Cpu) @ [sample_val ''12:01:00'' (Obj []) Cpu]"
    by blast
  with same full v show ?thesis
    by (simp add: Let_def MAX_DATA_POINTS_def flip: p_def)
qed

subsection \<open>Notifications\<close>

lemma showToast_ok: "showToast (Inr m) t p = Normal (with_toast (toast m t) p)"
  by (simp add: showToast_def append_child_def assign_def then_value_def with_toast_def)

lemma showToast_raises: "showToast (Inl e) t p = Threw e p"
  by (simp add: showToast_def append_child_def assign_def then_value_def)

lemma get_ok: "\<not> nullish v \<Longrightarrow> get v k = Inr (own_prop v k)"
  by (simp add: get_def)



text \<open>An answer of \<^verbatim>\<open>null\<close> and a failed request end in the \<^verbatim>\<open>catch\<close> branch.\<close>

lemma startTracking_failure:
  "startTracking rt (Json Null) p =
     Normal (with_toast
       (toast (Str (start_failed @ error_message rt (CannotRead Null ''status''))) ''error'') p)"
  "startTracking rt (Failed e) p =
     Normal (with_toast (toast (Str (start_failed @ error_message rt e)) ''error'') p)"
  by (simp_all add: startTracking_def try_catch_def let_const_def get_def nullish_def
        showToast_ok)



lemma stopTracking_failure:
  "stopTracking rt (Json Null) p =
     Normal (with_toast
       (toast (Str (stop_failed @ error_message rt (CannotRead Null ''message''))) ''error'') p)"
  "stopTracking rt (Failed e) p =
     Normal (with_toast (toast (Str (stop_failed @ error_message rt e)) ''error'') p)"
  by (simp_all add: stopTracking_def try_catch_def get_def nullish_def showToast_ok
        showToast_raises)

subsection \<open>Assignments and what they leave alone\<close>

lemma set_prop_ok: "set_prop i n (Inr v) p = Normal (p\<lparr>props := (props p)((i, n) := v)\<rparr>)"
  by (simp add: set_prop_def assign_def)

lemma set_text_ok: "set_text i (Inr v) p = Normal (p\<lparr>props := (props p)((i, ''textContent'') := v)\<rparr>)"
  by (simp add: set_text_def set_prop_ok)

named_theorems keeps_intros

lemma keeps_run [keeps_intros]:
  assumes "\<And>c. c \<in> set cs \<Longrightarrow> keeps k c"
  shows "keeps k (run cs)"
  unfolding keeps_def
proof
  fix p
  from assms show "props (state_of (run cs p)) k = props p k"
  proof (induction cs arbitrary: p)
    case Nil
    then show ?case by simp
  next
    case (Cons c cs)
    have c: "props (state_of (c p)) k = props p k"
      using Cons.prems[of c] by (simp add: keeps_def)
    show ?case
    proof (cases "c p")
      case (Normal q)
      with c Cons show ?thesis by simp
    next
      case (Threw e q)
      with c show ?thesis by simp
    qed
  qed
qed

lemma keeps_Normal [keeps_intros]: "keeps k Normal"
  by (simp add: keeps_def)

lemma keeps_set_prop [keeps_intros]: "(i, n) \<noteq> k \<Longrightarrow> keeps k (set_prop i n rhs)"
  by (cases rhs) (auto simp: keeps_def set_prop_def assign_def)

lemma keeps_set_text [keeps_intros]: "(i, ''textContent'') \<noteq> k \<Longrightarrow> keeps k (set_text i rhs)"
  by (simp add: set_text_def keeps_set_prop)

lemma keeps_class_add [keeps_intros]: "(i, ''class '' @ c) \<noteq> k \<Longrightarrow> keeps k (class_add i c)"
  by (simp add: class_add_def keeps_set_prop)

lemma keeps_class_remove [keeps_intros]: "(i, ''class '' @ c) \<noteq> k \<Longrightarrow> keeps k (class_remove i c)"
  by (simp add: class_remove_def keeps_set_prop)

lemma keeps_let_const [keeps_intros]: "(\<And>v. keeps k (f v)) \<Longrightarrow> keeps k (let_const r f)"
  by (cases r) (auto simp: keeps_def let_const_def)

lemma keeps_if [keeps_intros]: "keeps k a \<Longrightarrow> keeps k b \<Longrightarrow> keeps k (if c then a else b)"
  by simp

lemma keeps_forEach [keeps_intros]: "(\<And>x. keeps k (f x)) \<Longrightarrow> keeps k (forEach v f)"
proof (cases v)
  case (Arr xs)
  assume "\<And>x. keeps k (f x)"
  then have "keeps k (run (map f xs))" by (intro keeps_run) auto
  then show ?thesis using Arr by (simp add: keeps_def)
qed (simp_all add: keeps_def)

lemma keeps_append_child [keeps_intros]: "keeps k (append_child i rhs)"
  by (cases rhs) (auto simp: keeps_def append_child_def assign_def)

lemma keeps_clear_children [keeps_intros]: "keeps k (clear_children i)"
  by (simp add: keeps_def clear_children_def)

lemma keeps_showToast [keeps_intros]: "keeps k (showToast m t)"
  by (simp add: showToast_def keeps_append_child)

lemma keeps_try_catch [keeps_intros]:
  "keeps k body \<Longrightarrow> (\<And>e. keeps k (h e)) \<Longrightarrow> keeps k (try_catch body h)"
  unfolding keeps_def try_catch_def
proof
  fix p
  assume b: "\<forall>p. props (state_of (body p)) k = props p k"
    and h: "\<And>e. \<forall>p. props (state_of (h e p)) k = props p k"
  show "props (state_of (case body p of Normal x \<Rightarrow> Normal x | Threw e x \<Rightarrow> h e x)) k = props p k"
    using b[rule_format, of p] h by (cases "body p") auto
qed

lemma keeps_received [keeps_intros]: "(\<And>d. keeps k (f d)) \<Longrightarrow> keeps k (received r f)"
  by (cases r) (auto simp: keeps_def)

lemma keeps_push [keeps_intros]: "keeps k (push s rhs)"
  by (cases rhs) (auto simp: keeps_def push_def assign_def)

lemma keeps_shift [keeps_intros]: "keeps k (shift s)"
  by (simp add: keeps_def shift_def)

lemma keeps_set_labels [keeps_intros]: "keeps k (set_labels c s)"
  by (simp add: keeps_def set_labels_def)

lemma keeps_set_dataset [keeps_intros]: "keeps k (set_dataset c i s)"
  by (simp add: keeps_def set_dataset_def)

lemma keeps_update_gauge [keeps_intros]: "keeps k (update_gauge rt stats)"
  unfolding update_gauge_def
  by (cases "field_or stats ''cpu'' ''usage_percent'' (Num (Fin 0))") (auto simp: keeps_def assign_def)

lemma keeps_keep_max [keeps_intros]: "keeps k keep_max"
  by (simp add: keeps_def keep_max_ok)

lemma keeps_updateChartData [keeps_intros]: "keeps k (updateChartData rt now stats)"
  unfolding updateChartData_def add_samples_def refresh_charts_def
  by (intro keeps_run) (auto intro: keeps_intros)

lemma keeps_click_download [keeps_intros]: "keeps k (click_download rt f)"
  by (simp add: keeps_def click_download_def)

lemma keeps_updateDiskPartitions [keeps_intros]: "keeps k (updateDiskPartitions rt v)"
  unfolding updateDiskPartitions_def
  by (intro keeps_run) (auto intro: keeps_intros)

lemma keeps_updateProcessTable [keeps_intros]: "keeps k (updateProcessTable rt v)"
  unfolding updateProcessTable_def
  by (intro keeps_run) (auto intro: keeps_intros)

lemma keeps_updateUI_cpu:
  "fst k \<notin> {''cpuUsage'', ''cpuGaugeValue'', ''cpuTemp'', ''cpuFreq'', ''cpuCores''}
    \<Longrightarrow> keeps k (updateUI_cpu rt stats)"
  unfolding updateUI_cpu_def
  by (intro keeps_let_const keeps_run) (auto intro: keeps_intros)

lemma keeps_updateUI_memory:
  "fst k \<notin> {''memUsage'', ''memoryFill'', ''memUsed'', ''memTotal'', ''memAvailable'', ''memSwap''}
    \<Longrightarrow> keeps k (updateUI_memory rt stats)"
  unfolding updateUI_memory_def
  by (intro keeps_let_const keeps_run) (auto intro: keeps_intros)

lemma keeps_updateUI_gpu:
  "fst k \<notin> {''gpuUsage'', ''gpuName'', ''gpuTemp'', ''gpuMemory'', ''gpuMemPercent''}
    \<Longrightarrow> keeps k (updateUI_gpu rt stats)"
  unfolding updateUI_gpu_def
  by (intro keeps_let_const keeps_if keeps_run) (auto intro: keeps_intros)

lemma keeps_updateUI_network:
  "fst k \<notin> {''netUpload'', ''netDownload'', ''netTotalSent'', ''netTotalRecv''}
    \<Longrightarrow> keeps k (updateUI_network rt stats)"
  unfolding updateUI_network_def
  by (intro keeps_run) (auto intro: keeps_intros)

lemma keeps_updateUI_disk:
  "fst k \<notin> {''diskRead'', ''diskWrite''} \<Longrightarrow> keeps k (updateUI_disk rt stats)"
  unfolding updateUI_disk_def
  by (intro keeps_run) (auto intro: keeps_intros)

lemma keeps_updateUI_process: "keeps k (updateUI_process rt stats)"
  unfolding updateUI_process_def
  by (intro keeps_let_const keeps_updateProcessTable)

lemma keeps_updateUI_system:
  "fst k \<noteq> ''systemUptime'' \<Longrightarrow> keeps k (updateUI_system rt stats)"
  unfolding updateUI_system_def
  by (auto intro: keeps_intros)

lemma keeps_updateTrackingUI:
  "fst k \<notin> {''trackingStatus'', ''trackingProgressContainer'', ''progressFill'', ''dataPoints'',
      ''startTrackingBtn'', ''stopTrackingBtn'', ''generatePdfBtn''}
    \<Longrightarrow> keeps k (updateTrackingUI rt tracking)"
  unfolding updateTrackingUI_def
  by (intro keeps_let_const keeps_if keeps_run) (auto intro!: keeps_intros)

lemma keeps_updateUI_tracking:
  "fst k \<notin> {''trackingStatus'', ''trackingProgressContainer'', ''progressFill'', ''dataPoints'',
      ''startTrackingBtn'', ''stopTrackingBtn'', ''generatePdfBtn''}
    \<Longrightarrow> keeps k (updateUI_tracking rt stats)"
  unfolding updateUI_tracking_def
  by (intro keeps_let_const keeps_if keeps_updateTrackingUI keeps_Normal)

lemma run_single [simp]: "run [c] = c"
  by (rule ext) (simp split: outcome.split)


subsection \<open>The tracking panel and the PDF button\<close>

lemma updateTrackingUI_cases:
  "\<exists>q. state_of (updateTrackingUI rt tracking p) = q \<and>
     (pdf_disabled q = Bool True \<or> \<not> shows_tracking q \<or>
      (pdf_disabled q = pdf_disabled p \<and> shows_tracking q = shows_tracking p))"
proof (cases "nullish tracking")
  case True
  then show ?thesis
    by (simp add: updateTrackingUI_def let_const_def get_def)
next
  case False
  then show ?thesis
    by (simp add: updateTrackingUI_def let_const_def get_ok set_prop_ok set_text_ok
        class_add_def class_remove_def then_value_def pdf_disabled_def shows_tracking_def)
qed

lemma no_enable_updateTrackingUI:
  assumes "shows_tracking (state_of (updateTrackingUI rt tracking p))"
    "pdf_disabled (state_of (updateTrackingUI rt tracking p)) = Bool False"
  shows "pdf_disabled p = Bool False"
  using updateTrackingUI_cases[of rt tracking p] assms by auto

lemma no_enable_updateUI_tracking:
  assumes "shows_tracking (state_of (updateUI_tracking rt stats p))"
    "pdf_disabled (state_of (updateUI_tracking rt stats p)) = Bool False"
  shows "pdf_disabled p = Bool False"
proof (cases "get stats ''tracking''")
  case (Inl e)
  with assms show ?thesis by (simp add: updateUI_tracking_def let_const_def)
next
  case (Inr t)
  with assms show ?thesis
    by (cases "truthy t") (auto simp: updateUI_tracking_def let_const_def dest: no_enable_updateTrackingUI)
qed

lemma front_keeps:
  assumes "\<And>c. c \<in> set cs \<Longrightarrow> keeps k1 c \<and> keeps k2 c"
  shows "(\<exists>q. run (cs @ [d]) p = d q \<and> props q k1 = props p k1 \<and> props q k2 = props p k2)
       \<or> (props (state_of (run (cs @ [d]) p)) k1 = props p k1 \<and> props (state_of (run (cs @ [d]) p)) k2 = props p k2)"
proof -
  have k: "keeps k1 (run cs)" "keeps k2 (run cs)"
    using assms by (auto intro: keeps_run)
  show ?thesis
  proof (cases "run cs p")
    case (Normal q)
    then have "run (cs @ [d]) p = d q"
      by (cases "d q") (simp_all add: run_append)
    moreover have "props q k1 = props p k1" "props q k2 = props p k2"
      using k Normal by (auto simp: keeps_def dest: spec[of _ p])
    ultimately show ?thesis by blast
  next
    case (Threw e q)
    then have "run (cs @ [d]) p = Threw e q" by (simp add: run_append)
    moreover have "props q k1 = props p k1" "props q k2 = props p k2"
      using k Threw by (auto simp: keeps_def dest: spec[of _ p])
    ultimately show ?thesis by simp
  qed
qed

lemma no_enable_updateUI:
  assumes "shows_tracking (state_of (updateUI rt stats p))"
    "pdf_disabled (state_of (updateUI rt stats p)) = Bool False"
  shows "pdf_disabled p = Bool False"
proof -
  define cs where "cs = [updateUI_cpu rt stats, updateUI_memory rt stats, updateUI_gpu rt stats,
      updateUI_network rt stats, updateUI_disk rt stats, updateUI_process rt stats,
      updateUI_system rt stats]"
  define d where "d = updateUI_tracking rt stats"
  have eq: "updateUI rt stats = run (cs @ [d])"
    by (simp add: updateUI_def cs_def d_def)
  have ks: "keeps (''generatePdfBtn'', ''disabled'') c \<and> keeps (''trackingStatus'', ''class active'') c"
    if "c \<in> set cs" for c
    using that unfolding cs_def
    by (auto intro!: keeps_updateUI_cpu keeps_updateUI_memory keeps_updateUI_gpu keeps_updateUI_network
        keeps_updateUI_disk keeps_updateUI_process keeps_updateUI_system)
  have "(\<exists>q. run (cs @ [d]) p = d q \<and> pdf_disabled q = pdf_disabled p \<and> shows_tracking q = shows_tracking p)
       \<or> (pdf_disabled (state_of (run (cs @ [d]) p)) = pdf_disabled p)"
    using front_keeps[of cs "(''generatePdfBtn'', ''disabled'')" "(''trackingStatus'', ''class active'')" d p] ks
    unfolding pdf_disabled_def shows_tracking_def by metis
  then show ?thesis
  proof
    assume "\<exists>q. run (cs @ [d]) p = d q \<and> pdf_disabled q = pdf_disabled p \<and> shows_tracking q = shows_tracking p"
    then obtain q where q: "run (cs @ [d]) p = d q" "pdf_disabled q = pdf_disabled p" by blast
    from assms have "shows_tracking (state_of (updateUI_tracking rt stats q))"
      "pdf_disabled (state_of (updateUI_tracking rt stats q)) = Bool False"
      unfolding eq q(1) by (simp_all add: d_def)
    then have "pdf_disabled q = Bool False"
      by (rule no_enable_updateUI_tracking)
    with q show ?thesis by simp
  next
    assume "pdf_disabled (state_of (run (cs @ [d]) p)) = pdf_disabled p"
    with assms(2) show ?thesis unfolding eq by simp
  qed
qed

lemma no_enable_handle:
  assumes "\<not> set_aside e"
    "shows_tracking (state_of (handle rt e p))"
    "pdf_disabled (state_of (handle rt e p)) = Bool False"
  shows "pdf_disabled p = Bool False"
proof (cases e)
  case Connect
  have "keeps (''generatePdfBtn'', ''disabled'') on_connect"
    unfolding on_connect_def by (intro keeps_run) (auto intro: keeps_intros)
  with assms Connect show ?thesis by (simp add: keeps_def pdf_disabled_def)
next
  case Disconnect
  have "keeps (''generatePdfBtn'', ''disabled'') on_disconnect"
    unfolding on_disconnect_def by (intro keeps_run) (auto intro: keeps_intros)
  with assms Disconnect show ?thesis by (simp add: keeps_def pdf_disabled_def)
next
  case (StatsUpdate now stats)
  have k: "keeps k (updateChartData rt now stats)" for k by (rule keeps_updateChartData)
  have "props (state_of (on_stats_update rt now stats p)) k = props (state_of (updateUI rt stats p)) k" for k
  proof -
    have "on_stats_update rt now stats p =
        (case updateUI rt stats p of Normal q \<Rightarrow> updateChartData rt now stats q
         | Threw e q \<Rightarrow> Threw e q)"
      by (simp add: on_stats_update_def split: outcome.split)
    then show ?thesis
      using k[of k] by (cases "updateUI rt stats p") (auto simp: keeps_def)
  qed
  then have "shows_tracking (state_of (updateUI rt stats p))"
    "pdf_disabled (state_of (updateUI rt stats p)) = Bool False"
    using assms StatsUpdate by (simp_all add: pdf_disabled_def shows_tracking_def)
  then show ?thesis by (rule no_enable_updateUI)
next
  case (TrackingComplete d)
  with assms show ?thesis by simp
next
  case (Clock now)
  have "keeps (''generatePdfBtn'', ''disabled'') (updateTime now)"
    unfolding updateTime_def by (auto intro: keeps_intros)
  with assms Clock show ?thesis by (simp add: keeps_def pdf_disabled_def)
next
  case (StartTracking r)
  have "keeps (''generatePdfBtn'', ''disabled'') (startTracking rt r)"
    unfolding startTracking_def by (auto intro!: keeps_intros)
  with assms StartTracking show ?thesis by (simp add: keeps_def pdf_disabled_def)
next
  case (StopTracking r)
  have "keeps (''generatePdfBtn'', ''disabled'') (stopTracking rt r)"
    unfolding stopTracking_def by (auto intro!: keeps_intros)
  with assms StopTracking show ?thesis by (simp add: keeps_def pdf_disabled_def)
next
  case GeneratePdfClicked
  with assms show ?thesis
    by (simp add: generatePDF_begin_def set_prop_ok pdf_disabled_def)
next
  case (GeneratePdfAnswered r)
  with assms show ?thesis by simp
next
  case (InitialStatus r)
  show ?thesis
  proof (cases r)
    case (Json d)
    show ?thesis
    proof (cases "updateTrackingUI rt d p")
      case (Normal q)
      with assms InitialStatus Json show ?thesis
        using no_enable_updateTrackingUI[of rt d p]
        by (simp add: on_initial_status_def try_catch_def)
    next
      case (Threw err q)
      with assms InitialStatus Json show ?thesis
        using no_enable_updateTrackingUI[of rt d p]
        by (simp add: on_initial_status_def try_catch_def)
    qed
  next
    case (Failed err)
    with assms InitialStatus show ?thesis
      by (simp add: on_initial_status_def try_catch_def)
  qed
qed

lemma on_tracking_complete_ok:
  assumes "\<not> nullish data"
  shows "on_tracking_complete data p =
     Normal ((with_toast (toast (own_prop data ''message'') ''success'') p)
       \<lparr>props := (props p)((''generatePdfBtn'', ''disabled'') := Bool False)\<rparr>)"
  using assms
  by (simp add: on_tracking_complete_def get_ok showToast_ok set_prop_ok with_toast_def)

lemma props_on_stats_update:
  "props (state_of (on_stats_update rt now stats p)) k = props (state_of (updateUI rt stats p)) k"
proof -
  have "on_stats_update rt now stats p =
      (case updateUI rt stats p of Normal q \<Rightarrow> updateChartData rt now stats q
       | Threw e q \<Rightarrow> Threw e q)"
    by (simp add: on_stats_update_def split: outcome.split)
  then show ?thesis
    using keeps_updateChartData[of k rt now stats]
    by (cases "updateUI rt stats p") (auto simp: keeps_def)
qed

lemma page_awaiting_pdf_shown:
  "shows_tracking page_awaiting_pdf \<and> pdf_disabled page_awaiting_pdf = Bool True"
proof -
  have "props page_awaiting_pdf k =
      props (state_of (updateUI example_runtime running_payload
        (state_of (generatePDF_begin blank_page)))) k" for k
    by (simp add: page_awaiting_pdf_def props_on_stats_update)
  moreover have "props (state_of (updateUI example_runtime running_payload
        (state_of (generatePDF_begin blank_page))))
      (''trackingStatus'', ''class active'') = Bool True"
    by code_simp
  moreover have "props (state_of (updateUI example_runtime running_payload
        (state_of (generatePDF_begin blank_page))))
      (''generatePdfBtn'', ''disabled'') = Bool True"
    by code_simp
  ultimately show ?thesis
    by (simp add: shows_tracking_def pdf_disabled_def)
qed

lemma generatePDF_end_enables:
  "\<exists>q. state_of (generatePDF_end rt r p) = q \<and> pdf_disabled q = Bool False \<and>
     shows_tracking q = shows_tracking p"
proof -
  let ?body = "try_catch
          (received r (\<lambda>data.
             let_const (get data ''status'') (\<lambda>status.
               if status = Str ''success''
               then run [
                      showToast (Inr (Str pdf_done)) ''success'',
                      let_const (get data ''filename'') (click_download rt)]
               else showToast (get data ''message'') ''error'')))
          (\<lambda>error. showToast (Inr (Str (pdf_failed @ error_message rt error))) ''error'')"
  have k: "keeps k ?body" for k
    by (intro keeps_try_catch keeps_received keeps_let_const keeps_if keeps_run keeps_showToast)
       (auto intro: keeps_intros)
  have "props (state_of (?body p)) k = props p k" for k
    using k[of k] by (simp add: keeps_def)
  then show ?thesis
    unfolding generatePDF_end_def try_finally_def
    by (cases "?body p") (simp_all add: set_prop_ok pdf_disabled_def shows_tracking_def)
qed






subsection \<open>The process table\<close>

lemma decimal_digits: "decimal n \<noteq> [] \<and> list_all is_digit (decimal n)"
proof (induction n rule: decimal.induct)
  case (1 n)
  have d: "is_digit (digit k)" if "k < 10" for k
  proof -
    from that have "k \<in> {0,1,2,3,4,5,6,7,8,9}" by auto
    then show ?thesis by (auto simp: is_digit_def digit_def)
  qed
  show ?case
  proof (cases "n < 10")
    case True
    then have "decimal n = [digit n]" by (subst decimal.simps) simp
    with True show ?thesis by (simp add: d)
  next
    case False
    then have "decimal n = decimal (n div 10) @ [digit (n mod 10)]"
      by (subst decimal.simps) simp
    with False 1 show ?thesis by (simp add: d)
  qed
qed

lemma fixed_digits_1:
  "\<exists>ws d. fixed_digits a 1 = ws @ ''.'' @ [d] \<and> ws \<noteq> [] \<and> list_all is_digit ws \<and> is_digit d"
proof -
  define m where "m = decimal (nat \<lfloor>a * 10 ^ 1 + 1 / 2\<rfloor>)"
  define z where "z = replicate (1 + 1 - length m) (CHR ''0'') @ m"
  have m: "m \<noteq> []" "list_all is_digit m"
    using decimal_digits by (simp_all add: m_def)
  have z0: "is_digit (CHR ''0'')" by (simp add: is_digit_def)
  have zd: "list_all is_digit z"
    using m z0 by (auto simp: z_def list_all_iff)
  have zl: "2 \<le> length z"
    by (simp add: z_def)
  have fd: "fixed_digits a 1 = take (length z - 1) z @ ''.'' @ drop (length z - 1) z"
    by (simp add: fixed_digits_def Let_def m_def z_def)
  have zne: "z \<noteq> []"
    using zl by auto
  then have "drop (length z - 1) z = [last z]"
    by (cases z rule: rev_cases) simp_all
  moreover have "is_digit (last z)"
    using zd zne by (simp add: list_all_iff)
  moreover have "take (length z - 1) z \<noteq> []"
    using zl by auto
  moreover have "list_all is_digit (take (length z - 1) z)"
    using zd by (auto simp: list_all_iff dest: in_set_takeD)
  ultimately show ?thesis using fd by auto
qed

lemma one_decimal_toFixed:
  assumes "\<bar>x\<bar> < 10 ^ 21"
  shows "one_decimal (num_toFixed rt (Fin x) 1)"
proof -
  obtain ws d where f: "fixed_digits \<bar>x\<bar> 1 = ws @ ''.'' @ [d]" "ws \<noteq> []"
    "list_all is_digit ws" "is_digit d"
    using fixed_digits_1 by blast
  have nm: "hd ws \<noteq> CHR ''-''"
    using f(2,3) by (cases ws) (auto simp: is_digit_def)
  have ws: "without_sign (ws @ ''.'' @ [d]) = ws @ ''.'' @ [d]"
    using f(2) nm by (cases ws) auto
  have ws': "without_sign (''-'' @ ws @ ''.'' @ [d]) = ws @ ''.'' @ [d]"
    by simp
  show ?thesis
    using assms f ws ws'
    by (cases "x < 0") (simp_all add: one_decimal_def)
qed

lemma process_row_ok:
  assumes "process_entry v"
  shows "process_row rt v = Inr (expected_row rt v)"
proof -
  obtain c m where "own_prop v ''cpu_percent'' = Num c" "own_prop v ''memory_percent'' = Num m"
    using assms unfolding process_entry_def
    by (cases "own_prop v ''cpu_percent''"; cases "own_prop v ''memory_percent''") auto
  with assms show ?thesis
    by (simp add: process_entry_def process_row_def expected_row_def get_ok and_then_def
        then_value_def)
qed

lemma append_rows:
  assumes "\<forall>v \<in> set ps. process_entry v"
  shows "run (map (\<lambda>proc. append_child i (process_row rt proc)) ps) p =
     Normal (p\<lparr>children := (children p)(i := children p i @ map (expected_row rt) ps)\<rparr>)"
  using assms
proof (induction ps arbitrary: p)
  case Nil
  then show ?case by simp
next
  case (Cons v ps)
  let ?p1 = "p\<lparr>children := (children p)(i := children p i @ [expected_row rt v])\<rparr>"
  have step: "append_child i (process_row rt v) p = Normal ?p1"
    using Cons.prems by (simp add: process_row_ok append_child_def assign_def)
  have "run (map (\<lambda>proc. append_child i (process_row rt proc)) ps) ?p1 =
      Normal (?p1\<lparr>children := (children ?p1)(i := children ?p1 i @ map (expected_row rt) ps)\<rparr>)"
    using Cons.prems by (intro Cons.IH) simp
  also have "?p1\<lparr>children := (children ?p1)(i := children ?p1 i @ map (expected_row rt) ps)\<rparr> =
      p\<lparr>children := (children p)(i := children p i @ map (expected_row rt) (v # ps))\<rparr>"
    by simp
  finally show ?case
    by (simp only: list.map run.simps step outcome.case)
qed

lemma updateProcessTable_ok:
  assumes "\<forall>v \<in> set ps. process_entry v"
  shows "updateProcessTable rt (Arr ps) p =
     Normal (p\<lparr>children := (children p)(''processTableBody'' := map (expected_row rt) ps)\<rparr>)"
  by (simp add: updateProcessTable_def clear_children_def append_rows[OF assms])



subsection \<open>The GPU panel\<close>

lemma run_pre_post:
  assumes "run pre p = Normal q" "\<And>d. d \<in> set post \<Longrightarrow> keeps k d"
  shows "props (state_of (run (pre @ c # post) p)) k = props (state_of (c q)) k"
proof -
  have kp: "keeps k (run post)"
    using assms(2) by (rule keeps_run)
  show ?thesis
  proof (cases "c q")
    case (Normal q')
    then show ?thesis
      using assms(1) kp by (simp add: run_append keeps_def)
  next
    case (Threw e q')
    then show ?thesis
      using assms(1) by (simp add: run_append)
  qed
qed

lemma completesE: "completes r \<Longrightarrow> \<exists>q. r = Normal q"
  by (cases r) simp_all

lemma updateUI_gpu_absent:
  assumes "\<not> nullish stats" "own_prop stats ''gpu'' = Arr []"
  shows "updateUI_gpu rt stats q =
     Normal (q\<lparr>props := (props q)
        ((''gpuUsage'', ''textContent'') := Str ''N/A'',
         (''gpuName'', ''textContent'') := Str gpu_not_found)\<rparr>)"
  using assms
  by (simp add: updateUI_gpu_def let_const_def get_ok set_text_ok)

lemma updateUI_split_gpu:
  "updateUI rt stats =
     run ([updateUI_cpu rt stats, updateUI_memory rt stats] @ updateUI_gpu rt stats #
          [updateUI_network rt stats, updateUI_disk rt stats, updateUI_process rt stats,
           updateUI_system rt stats, updateUI_tracking rt stats])"
  by (simp add: updateUI_def)

lemma after_gpu_keeps:
  assumes "fst k \<in> {''gpuUsage'', ''gpuName'', ''gpuTemp'', ''gpuMemory'', ''gpuMemPercent''}"
    "d \<in> set [updateUI_network rt stats, updateUI_disk rt stats, updateUI_process rt stats,
           updateUI_system rt stats, updateUI_tracking rt stats]"
  shows "keeps k d"
  using assms
  by (auto intro!: keeps_updateUI_network keeps_updateUI_disk keeps_updateUI_process
      keeps_updateUI_system keeps_updateUI_tracking)

lemma updateUI_gpu_text:
  assumes "completes (run [updateUI_cpu rt stats, updateUI_memory rt stats] p)"
    "i \<in> {''gpuUsage'', ''gpuName'', ''gpuTemp'', ''gpuMemory'', ''gpuMemPercent''}"
  shows "\<exists>q. run [updateUI_cpu rt stats, updateUI_memory rt stats] p = Normal q \<and>
     text_of (state_of (updateUI rt stats p)) i = text_of (state_of (updateUI_gpu rt stats q)) i"
proof -
  obtain q where q: "run [updateUI_cpu rt stats, updateUI_memory rt stats] p = Normal q"
    using completesE[OF assms(1)] by blast
  have "props (state_of (updateUI rt stats p)) (i, ''textContent'') =
      props (state_of (updateUI_gpu rt stats q)) (i, ''textContent'')"
    unfolding updateUI_split_gpu
    by (rule run_pre_post[OF q]) (rule after_gpu_keeps, use assms(2) in simp)
  with q show ?thesis by (simp add: text_of_def)
qed

lemma sample_val_gpu_absent:
  assumes "\<not> nullish stats" "own_prop stats ''gpu'' = Arr []"
  shows "sample_val now stats Gpu = Num (Fin 0)"
  using assms
  by (simp add: sample_val_def gpu_load_def get_ok opt_index0_def opt_get_def nullish_def
      or_else_def)

text \<open>
  C6.  Let the \<^verbatim>\<open>gpu\<close> member of a snapshot be the empty array.  The GPU section
  of \<^verbatim>\<open>updateUI\<close> then completes on every page and writes \<^verbatim>\<open>N/A\<close> as the
  usage and the not-found label as the name; when the two sections before it complete,
  these are the texts on the page after \<^verbatim>\<open>updateUI\<close>, whatever the later sections
  do.  \<^verbatim>\<open>updateChartData\<close> completes and appends 0 to the GPU history (dropping
  the oldest entry when the history was full).
\<close>

theorem gpu_absent_handled:
  assumes "\<not> nullish stats" "own_prop stats ''gpu'' = Arr []"
  shows "completes (updateUI_gpu rt stats p) \<and>
     text_of (state_of (updateUI_gpu rt stats p)) ''gpuUsage'' = Str ''N/A'' \<and>
     text_of (state_of (updateUI_gpu rt stats p)) ''gpuName'' = Str gpu_not_found \<and>
     (completes (run [updateUI_cpu rt stats, updateUI_memory rt stats] p) \<longrightarrow>
        text_of (state_of (updateUI rt stats p)) ''gpuUsage'' = Str ''N/A'' \<and>
        text_of (state_of (updateUI rt stats p)) ''gpuName'' = Str gpu_not_found) \<and>
     completes (updateChartData rt now stats p) \<and>
     chartData (state_of (updateChartData rt now stats p)) Gpu =
       (if MAX_DATA_POINTS \<le> length (chartData p Labels)
        then tl (chartData p Gpu @ [Num (Fin 0)]) else chartData p Gpu @ [Num (Fin 0)])"
proof -
  note gpu = updateUI_gpu_absent[OF assms, of rt]
  have sect: "completes (updateUI_gpu rt stats p)"
    "text_of (state_of (updateUI_gpu rt stats p)) ''gpuUsage'' = Str ''N/A''"
    "text_of (state_of (updateUI_gpu rt stats p)) ''gpuName'' = Str gpu_not_found"
    by (simp_all add: gpu text_of_def)
  have whole: "text_of (state_of (updateUI rt stats p)) ''gpuUsage'' = Str ''N/A'' \<and>
        text_of (state_of (updateUI rt stats p)) ''gpuName'' = Str gpu_not_found"
    if c: "completes (run [updateUI_cpu rt stats, updateUI_memory rt stats] p)"
  proof -
    from updateUI_gpu_text[OF c, of "''gpuUsage''"] updateUI_gpu_text[OF c, of "''gpuName''"]
    show ?thesis by (auto simp: gpu text_of_def)
  qed
  obtain q where q: "updateChartData rt now stats p = Normal q"
    "chartData q = (\<lambda>s. if MAX_DATA_POINTS \<le> length (chartData p Labels)
         then tl (chartData p s @ [sample_val now stats s])
         else chartData p s @ [sample_val now stats s])"
    using updateChartData_ok[OF assms(1), of rt now p] by blast
  have chart: "completes (updateChartData rt now stats p)"
    "chartData (state_of (updateChartData rt now stats p)) Gpu =
       (if MAX_DATA_POINTS \<le> length (chartData p Labels)
        then tl (chartData p Gpu @ [Num (Fin 0)]) else chartData p Gpu @ [Num (Fin 0)])"
    by (simp_all add: q sample_val_gpu_absent[OF assms])
  from sect whole chart show ?thesis by blast
qed

theorem gpu_absent_handled_witness:
  "completes (updateUI example_runtime no_gpu_payload blank_page) \<and>
   text_of (state_of (updateUI example_runtime no_gpu_payload blank_page)) ''gpuUsage'' =
     Str ''N/A'' \<and>
   text_of (state_of (updateUI example_runtime no_gpu_payload blank_page)) ''gpuName'' =
     Str gpu_not_found \<and>
   chartData (state_of (updateChartData example_runtime ''12:00:00'' no_gpu_payload blank_page))
     Gpu = [Num (Fin 0)]"
proof -
  have n: "\<not> nullish no_gpu_payload"
    by (simp add: no_gpu_payload_def nullish_def)
  have g: "own_prop no_gpu_payload ''gpu'' = Arr []"
    by (simp add: no_gpu_payload_def)
  have c: "completes (updateUI example_runtime no_gpu_payload blank_page)"
    by code_simp
  have c2: "completes (run [updateUI_cpu example_runtime no_gpu_payload,
      updateUI_memory example_runtime no_gpu_payload] blank_page)"
    by code_simp
  have e: "chartData blank_page s = []" for s
    by (simp add: blank_page_def initial_page_def)
  show ?thesis
    using gpu_absent_handled[OF n g, of example_runtime blank_page "''12:00:00''"] c c2
    by (simp add: e MAX_DATA_POINTS_def)
qed

subsection \<open>Temperatures of zero\<close>

lemma toFixed_number: "is_number v \<Longrightarrow> toFixed rt v f = Inr (num_toFixed rt (number_of v) f)"
  by (cases v) simp_all

lemma field_ok: "\<not> nullish stats \<Longrightarrow> field stats a b = Inr (opt_get (own_prop stats a) b)"
  by (simp add: field_def get_def)

lemma updateUI_cpu_temp:
  assumes "\<not> nullish stats"
    "number_or_falsy (opt_get (own_prop stats ''cpu'') ''usage_percent'')"
    "\<not> truthy (opt_get (own_prop stats ''cpu'') ''temperature'')"
  shows "text_of (state_of (updateUI_cpu rt stats p)) ''cpuTemp'' = Str (''--'' @ deg_C)"
proof -
  define cpuUsage where
    "cpuUsage = or_else (opt_get (own_prop stats ''cpu'') ''usage_percent'') (Num (Fin 0))"
  define s4 where "s4 = set_text ''cpuFreq''
           (and_then (field stats ''cpu'' ''frequency_current'') (\<lambda>c.
              if truthy c
              then and_then (get stats ''cpu'') (\<lambda>cpu.
                   and_then (get cpu ''frequency_current'') (\<lambda>f.
                   then_value (toFixed rt f 0) (\<lambda>d. template rt [Text d, Text '' MHz''])))
              else Inr (Str ''-- MHz'')))"
  define s5 where "s5 = set_text ''cpuCores'' (field_or stats ''cpu'' ''core_count_logical'' (Str ''--''))"
  define pre where "pre = [
         set_text ''cpuUsage''
           (then_value (toFixed rt cpuUsage 1) (\<lambda>t. template rt [Text t, Text ''%''])),
         set_text ''cpuGaugeValue'' (then_value (toFixed rt cpuUsage 0) Str)]"
  define s3 where "s3 = set_text ''cpuTemp'' (Inr (Str (''--'' @ deg_C)))"
  have num: "is_number cpuUsage"
    using assms(2) by (simp add: number_or_falsy_def cpuUsage_def)
  have eq: "updateUI_cpu rt stats p = run (pre @ s3 # [s4, s5]) p"
    using assms(1,3)
    by (simp add: updateUI_cpu_def let_const_def field_or_ok field_ok and_then_def
        cpuUsage_def pre_def s3_def s4_def s5_def)
  obtain q where q: "run pre p = Normal q"
    by (simp add: pre_def toFixed_number[OF num] then_value_def set_text_ok)
  have post: "keeps (''cpuTemp'', ''textContent'') d" if "d \<in> set [s4, s5]" for d
    using that by (auto simp: s4_def s5_def intro!: keeps_set_text)
  have "props (state_of (run (pre @ s3 # [s4, s5]) p)) (''cpuTemp'', ''textContent'') =
      props (state_of (s3 q)) (''cpuTemp'', ''textContent'')"
    by (rule run_pre_post[OF q post])
  then show ?thesis
    by (simp add: eq text_of_def s3_def set_text_ok)
qed

lemma updateUI_split_cpu:
  "updateUI rt stats =
     run ([] @ updateUI_cpu rt stats #
          [updateUI_memory rt stats, updateUI_gpu rt stats,
           updateUI_network rt stats, updateUI_disk rt stats, updateUI_process rt stats,
           updateUI_system rt stats, updateUI_tracking rt stats])"
  by (simp add: updateUI_def)

lemma after_cpu_keeps:
  assumes "fst k \<in> {''cpuUsage'', ''cpuGaugeValue'', ''cpuTemp'', ''cpuFreq'', ''cpuCores''}"
    "d \<in> set [updateUI_memory rt stats, updateUI_gpu rt stats,
           updateUI_network rt stats, updateUI_disk rt stats, updateUI_process rt stats,
           updateUI_system rt stats, updateUI_tracking rt stats]"
  shows "keeps k d"
  using assms
  by (auto intro!: keeps_updateUI_memory keeps_updateUI_gpu keeps_updateUI_network
      keeps_updateUI_disk keeps_updateUI_process keeps_updateUI_system keeps_updateUI_tracking)

lemma updateUI_cpu_text:
  assumes "i \<in> {''cpuUsage'', ''cpuGaugeValue'', ''cpuTemp'', ''cpuFreq'', ''cpuCores''}"
  shows "text_of (state_of (updateUI rt stats p)) i = text_of (state_of (updateUI_cpu rt stats p)) i"
proof -
  have "props (state_of (updateUI rt stats p)) (i, ''textContent'') =
      props (state_of (updateUI_cpu rt stats p)) (i, ''textContent'')"
    unfolding updateUI_split_cpu
    by (rule run_pre_post[of "[]" p p]) (simp, rule after_cpu_keeps, use assms in simp_all)
  then show ?thesis by (simp add: text_of_def)
qed

lemma updateUI_gpu_temp:
  assumes "\<not> nullish stats" "own_prop stats ''gpu'' = Arr (g # gs)" "\<not> nullish g"
    "nullish (own_prop g ''load_percent'') \<or> is_number (own_prop g ''load_percent'')"
    "\<not> truthy (own_prop g ''temperature'')"
  shows "text_of (state_of (updateUI_gpu rt stats q)) ''gpuTemp'' = Str (''--'' @ deg_C)"
proof -
  define pre where "pre = [
             set_text ''gpuUsage'' (gpu_fixed rt g ''load_percent'' 1 ''%''),
             set_text ''gpuName''
               (then_value (get g ''name'') (\<lambda>n. or_else n (Str ''Unknown GPU'')))]"
  define s3 where "s3 = set_text ''gpuTemp'' (Inr (Str (''--'' @ deg_C)))"
  define post where "post = [
             set_text ''gpuMemory'' (gpu_fixed rt g ''memory_used_mb'' 0 '' MB''),
             set_text ''gpuMemPercent'' (gpu_fixed rt g ''memory_percent'' 1 ''%'')]"
  have eq: "updateUI_gpu rt stats q = run (pre @ s3 # post) q"
    using assms(1,2,3,5)
    by (simp add: updateUI_gpu_def let_const_def get_ok get_index0_def nullish_def and_then_def
        pre_def s3_def post_def)
  have "\<exists>v. gpu_fixed rt g ''load_percent'' 1 ''%'' = Inr v"
    using assms(3,4)
    by (auto simp: gpu_fixed_def get_ok and_then_def then_value_def opt_toFixed_def toFixed_number)
  then obtain q' where q': "run pre q = Normal q'"
    using assms(3) by (auto simp: pre_def set_text_ok get_ok then_value_def)
  have post: "keeps (''gpuTemp'', ''textContent'') d" if "d \<in> set post" for d
    using that by (auto simp: post_def intro!: keeps_set_text)
  have "props (state_of (run (pre @ s3 # post) q)) (''gpuTemp'', ''textContent'') =
      props (state_of (s3 q')) (''gpuTemp'', ''textContent'')"
    by (rule run_pre_post[OF q' post])
  then show ?thesis
    by (simp add: eq text_of_def s3_def set_text_ok)
qed



subsection \<open>The names the script reads\<close>

lemma let_const_Inr: "let_const (Inr v) f = f v"
  by (rule ext) (simp add: let_const_def)

lemma completes_append:
  assumes "completes (run (xs @ ys) p)"
  shows "\<exists>q. run xs p = Normal q \<and> completes (run ys q)"
  using assms by (cases "run xs p") (simp_all add: run_append)

lemma run_assign_text:
  assumes c: "completes (run (pre @ set_text i rhs # post) p)"
    and k: "\<And>d. d \<in> set post \<Longrightarrow> keeps (i, ''textContent'') d"
  shows "\<exists>v. rhs = Inr v \<and> text_of (state_of (run (pre @ set_text i rhs # post) p)) i = v"
proof -
  obtain q where q: "run pre p = Normal q" "completes (run (set_text i rhs # post) q)"
    using completes_append[OF c] by blast
  obtain v where v: "rhs = Inr v"
    using q(2) by (cases rhs) (simp_all add: set_text_def set_prop_def assign_def)
  have "props (state_of (run (pre @ set_text i rhs # post) p)) (i, ''textContent'') =
      props (state_of (set_text i rhs q)) (i, ''textContent'')"
    by (rule run_pre_post[OF q(1) k])
  then show ?thesis
    by (simp add: v text_of_def set_text_ok)
qed

lemma updateUI_cpu_details:
  assumes n: "\<not> nullish stats" and c: "completes (updateUI_cpu rt stats p)"
  shows "(\<forall>t. opt_get (own_prop stats ''cpu'') ''temperature'' = Num (Fin t) \<longrightarrow> t \<noteq> 0 \<longrightarrow>
        text_of (state_of (updateUI_cpu rt stats p)) ''cpuTemp'' =
          Str (num_toFixed rt (Fin t) 0 @ deg_C)) \<and>
     (\<forall>f. opt_get (own_prop stats ''cpu'') ''frequency_current'' = Num (Fin f) \<longrightarrow> f \<noteq> 0 \<longrightarrow>
        text_of (state_of (updateUI_cpu rt stats p)) ''cpuFreq'' =
          Str (num_toFixed rt (Fin f) 0 @ '' MHz'')) \<and>
     (\<forall>k. opt_get (own_prop stats ''cpu'') ''core_count_logical'' = Num (Fin k) \<longrightarrow> k \<noteq> 0 \<longrightarrow>
        text_of (state_of (updateUI_cpu rt stats p)) ''cpuCores'' = Num (Fin k)) \<and>
     (opt_get (own_prop stats ''cpu'') ''temperature'' = Undefined \<longrightarrow>
        text_of (state_of (updateUI_cpu rt stats p)) ''cpuTemp'' = Str (''--'' @ deg_C)) \<and>
     (opt_get (own_prop stats ''cpu'') ''frequency_current'' = Undefined \<longrightarrow>
        text_of (state_of (updateUI_cpu rt stats p)) ''cpuFreq'' = Str ''-- MHz'') \<and>
     (opt_get (own_prop stats ''cpu'') ''core_count_logical'' = Undefined \<longrightarrow>
        text_of (state_of (updateUI_cpu rt stats p)) ''cpuCores'' = Str ''--'')"
proof -
  define cpuUsage where
    "cpuUsage = or_else (opt_get (own_prop stats ''cpu'') ''usage_percent'') (Num (Fin 0))"
  define s1 where "s1 = set_text ''cpuUsage''
           (then_value (toFixed rt cpuUsage 1) (\<lambda>t. template rt [Text t, Text ''%'']))"
  define s2 where "s2 = set_text ''cpuGaugeValue'' (then_value (toFixed rt cpuUsage 0) Str)"
  define e3 where "e3 = and_then (field stats ''cpu'' ''temperature'') (\<lambda>c.
              if truthy c
              then and_then (get stats ''cpu'') (\<lambda>cpu.
                   and_then (get cpu ''temperature'') (\<lambda>t.
                   then_value (toFixed rt t 0) (\<lambda>d. template rt [Text d, Text deg_C])))
              else Inr (Str (''--'' @ deg_C)))"
  define e4 where "e4 = and_then (field stats ''cpu'' ''frequency_current'') (\<lambda>c.
              if truthy c
              then and_then (get stats ''cpu'') (\<lambda>cpu.
                   and_then (get cpu ''frequency_current'') (\<lambda>f.
                   then_value (toFixed rt f 0) (\<lambda>d. template rt [Text d, Text '' MHz''])))
              else Inr (Str ''-- MHz''))"
  define e5 where "e5 = field_or stats ''cpu'' ''core_count_logical'' (Str ''--'')"
  have eq: "updateUI_cpu rt stats =
      run [s1, s2, set_text ''cpuTemp'' e3, set_text ''cpuFreq'' e4, set_text ''cpuCores'' e5]"
    by (simp only: updateUI_cpu_def let_const_Inr field_or_ok[OF n] cpuUsage_def s1_def s2_def
        e3_def e4_def e5_def)
  have eq3: "updateUI_cpu rt stats =
      run ([s1, s2] @ set_text ''cpuTemp'' e3 # [set_text ''cpuFreq'' e4, set_text ''cpuCores'' e5])"
    and eq4: "updateUI_cpu rt stats =
      run ([s1, s2, set_text ''cpuTemp'' e3] @ set_text ''cpuFreq'' e4 # [set_text ''cpuCores'' e5])"
    and eq5: "updateUI_cpu rt stats =
      run ([s1, s2, set_text ''cpuTemp'' e3, set_text ''cpuFreq'' e4] @ set_text ''cpuCores'' e5 # [])"
    by (simp_all only: eq append_Cons append_Nil)
  have t3: "\<exists>v. e3 = Inr v \<and> text_of (state_of (updateUI_cpu rt stats p)) ''cpuTemp'' = v"
    using c unfolding eq3
    by (rule run_assign_text) (auto intro!: keeps_set_text)
  have t4: "\<exists>v. e4 = Inr v \<and> text_of (state_of (updateUI_cpu rt stats p)) ''cpuFreq'' = v"
    using c unfolding eq4
    by (rule run_assign_text) (auto intro!: keeps_set_text)
  have t5: "\<exists>v. e5 = Inr v \<and> text_of (state_of (updateUI_cpu rt stats p)) ''cpuCores'' = v"
    using c unfolding eq5
    by (rule run_assign_text) (auto intro!: keeps_set_text)
  have nn: "\<not> nullish (own_prop stats ''cpu'')" if "opt_get (own_prop stats ''cpu'') k = Num x" for k x
    using that by (auto simp: opt_get_def split: if_splits)
  have v3: "e3 = Inr (Str (num_toFixed rt (Fin t) 0 @ deg_C))"
    if "opt_get (own_prop stats ''cpu'') ''temperature'' = Num (Fin t)" "t \<noteq> 0" for t
    using that nn[OF that(1)] n
    by (simp add: e3_def field_ok and_then_def get_ok then_value_def template_def opt_get_def)
  have v4: "e4 = Inr (Str (num_toFixed rt (Fin f) 0 @ '' MHz''))"
    if "opt_get (own_prop stats ''cpu'') ''frequency_current'' = Num (Fin f)" "f \<noteq> 0" for f
    using that nn[OF that(1)] n
    by (simp add: e4_def field_ok and_then_def get_ok then_value_def template_def opt_get_def)
  have v5: "e5 = Inr (Num (Fin k))"
    if "opt_get (own_prop stats ''cpu'') ''core_count_logical'' = Num (Fin k)" "k \<noteq> 0" for k
    using that n by (simp add: e5_def field_or_ok or_else_def)
  have d3: "e3 = Inr (Str (''--'' @ deg_C))"
    if "opt_get (own_prop stats ''cpu'') ''temperature'' = Undefined"
    using that n by (simp add: e3_def field_ok and_then_def)
  have d4: "e4 = Inr (Str ''-- MHz'')"
    if "opt_get (own_prop stats ''cpu'') ''frequency_current'' = Undefined"
    using that n by (simp add: e4_def field_ok and_then_def)
  have d5: "e5 = Inr (Str ''--'')"
    if "opt_get (own_prop stats ''cpu'') ''core_count_logical'' = Undefined"
    using that n by (simp add: e5_def field_or_ok or_else_def)
  from t3 v3 d3 have r3:
    "\<forall>t. opt_get (own_prop stats ''cpu'') ''temperature'' = Num (Fin t) \<longrightarrow> t \<noteq> 0 \<longrightarrow>
        text_of (state_of (updateUI_cpu rt stats p)) ''cpuTemp'' =
          Str (num_toFixed rt (Fin t) 0 @ deg_C)"
    "opt_get (own_prop stats ''cpu'') ''temperature'' = Undefined \<longrightarrow>
        text_of (state_of (updateUI_cpu rt stats p)) ''cpuTemp'' = Str (''--'' @ deg_C)"
    by auto
  from t4 v4 d4 have r4:
    "\<forall>f. opt_get (own_prop stats ''cpu'') ''frequency_current'' = Num (Fin f) \<longrightarrow> f \<noteq> 0 \<longrightarrow>
        text_of (state_of (updateUI_cpu rt stats p)) ''cpuFreq'' =
          Str (num_toFixed rt (Fin f) 0 @ '' MHz'')"
    "opt_get (own_prop stats ''cpu'') ''frequency_current'' = Undefined \<longrightarrow>
        text_of (state_of (updateUI_cpu rt stats p)) ''cpuFreq'' = Str ''-- MHz''"
    by auto
  from t5 v5 d5 have r5:
    "\<forall>k. opt_get (own_prop stats ''cpu'') ''core_count_logical'' = Num (Fin k) \<longrightarrow> k \<noteq> 0 \<longrightarrow>
        text_of (state_of (updateUI_cpu rt stats p)) ''cpuCores'' = Num (Fin k)"
    "opt_get (own_prop stats ''cpu'') ''core_count_logical'' = Undefined \<longrightarrow>
        text_of (state_of (updateUI_cpu rt stats p)) ''cpuCores'' = Str ''--''"
    by auto
  from r3 r4 r5 show ?thesis by blast
qed

lemma completes_head:
  assumes "completes (run (c # cs) p)"
  shows "completes (c p)"
  using assms by (cases "c p") simp_all

lemma updateUI_disk_speeds:
  assumes n: "\<not> nullish stats" and c: "completes (updateUI_disk rt stats q)"
  shows "(\<forall>r. opt_get (own_prop stats ''disk'') ''io_read_speed_mbps'' = Num (Fin r) \<longrightarrow>
        text_of (state_of (updateUI_disk rt stats q)) ''diskRead'' =
          Str (number_text rt r @ '' MB/s'')) \<and>
     (\<forall>w. opt_get (own_prop stats ''disk'') ''io_write_speed_mbps'' = Num (Fin w) \<longrightarrow>
        text_of (state_of (updateUI_disk rt stats q)) ''diskWrite'' =
          Str (number_text rt w @ '' MB/s'')) \<and>
     (opt_get (own_prop stats ''disk'') ''io_read_speed_mbps'' = Undefined \<longrightarrow>
        text_of (state_of (updateUI_disk rt stats q)) ''diskRead'' = Str ''0 MB/s'') \<and>
     (opt_get (own_prop stats ''disk'') ''io_write_speed_mbps'' = Undefined \<longrightarrow>
        text_of (state_of (updateUI_disk rt stats q)) ''diskWrite'' = Str ''0 MB/s'')"
proof -
  define s1 where "s1 =
     let_const (field_or stats ''disk'' ''partitions'' (Arr [])) (updateDiskPartitions rt)"
  define e2 where "e2 = then_value (field_or stats ''disk'' ''io_read_speed_mbps'' (Num (Fin 0)))
            (\<lambda>v. template rt [Val v, Text '' MB/s''])"
  define e3 where "e3 = then_value (field_or stats ''disk'' ''io_write_speed_mbps'' (Num (Fin 0)))
            (\<lambda>v. template rt [Val v, Text '' MB/s''])"
  have eq2: "updateUI_disk rt stats = run ([s1] @ set_text ''diskRead'' e2 # [set_text ''diskWrite'' e3])"
    and eq3: "updateUI_disk rt stats = run ([s1, set_text ''diskRead'' e2] @ set_text ''diskWrite'' e3 # [])"
    by (simp_all only: updateUI_disk_def s1_def e2_def e3_def append_Cons append_Nil)
  have t2: "\<exists>v. e2 = Inr v \<and> text_of (state_of (updateUI_disk rt stats q)) ''diskRead'' = v"
    using c unfolding eq2
    by (rule run_assign_text) (auto intro!: keeps_set_text)
  have t3: "\<exists>v. e3 = Inr v \<and> text_of (state_of (updateUI_disk rt stats q)) ''diskWrite'' = v"
    using c unfolding eq3
    by (rule run_assign_text) (auto intro!: keeps_set_text)
  have keep: "or_else (Num (Fin r)) (Num (Fin 0)) = Num (Fin r)" for r
    by (simp add: or_else_def)
  have v2: "e2 = Inr (Str (number_text rt r @ '' MB/s''))"
    if "opt_get (own_prop stats ''disk'') ''io_read_speed_mbps'' = Num (Fin r)" for r
    using that n by (simp add: e2_def field_or_ok then_value_def template_def keep)
  have v3: "e3 = Inr (Str (number_text rt w @ '' MB/s''))"
    if "opt_get (own_prop stats ''disk'') ''io_write_speed_mbps'' = Num (Fin w)" for w
    using that n by (simp add: e3_def field_or_ok then_value_def template_def keep)
  have zero: "number_text rt 0 = ''0''"
    by (simp add: number_text_def) (subst decimal.simps, simp add: digit_def)
  have d2: "e2 = Inr (Str ''0 MB/s'')"
    if "opt_get (own_prop stats ''disk'') ''io_read_speed_mbps'' = Undefined"
    using that n by (simp add: e2_def field_or_ok then_value_def template_def or_else_def zero)
  have d3: "e3 = Inr (Str ''0 MB/s'')"
    if "opt_get (own_prop stats ''disk'') ''io_write_speed_mbps'' = Undefined"
    using that n by (simp add: e3_def field_or_ok then_value_def template_def or_else_def zero)
  from t2 v2 d2 have r2:
    "\<forall>r. opt_get (own_prop stats ''disk'') ''io_read_speed_mbps'' = Num (Fin r) \<longrightarrow>
        text_of (state_of (updateUI_disk rt stats q)) ''diskRead'' =
          Str (number_text rt r @ '' MB/s'')"
    "opt_get (own_prop stats ''disk'') ''io_read_speed_mbps'' = Undefined \<longrightarrow>
        text_of (state_of (updateUI_disk rt stats q)) ''diskRead'' = Str ''0 MB/s''"
    by auto
  from t3 v3 d3 have r3:
    "\<forall>w. opt_get (own_prop stats ''disk'') ''io_write_speed_mbps'' = Num (Fin w) \<longrightarrow>
        text_of (state_of (updateUI_disk rt stats q)) ''diskWrite'' =
          Str (number_text rt w @ '' MB/s'')"
    "opt_get (own_prop stats ''disk'') ''io_write_speed_mbps'' = Undefined \<longrightarrow>
        text_of (state_of (updateUI_disk rt stats q)) ''diskWrite'' = Str ''0 MB/s''"
    by auto
  from r2 r3 show ?thesis by blast
qed

lemma updateUI_split_disk:
  "updateUI rt stats =
     run ([updateUI_cpu rt stats, updateUI_memory rt stats, updateUI_gpu rt stats,
           updateUI_network rt stats] @ updateUI_disk rt stats #
          [updateUI_process rt stats, updateUI_system rt stats, updateUI_tracking rt stats])"
  by (simp only: updateUI_def append_Cons append_Nil)

lemma updateUI_disk_text:
  assumes c: "completes (updateUI rt stats p)" and i: "i \<in> {''diskRead'', ''diskWrite''}"
  shows "\<exists>q. completes (updateUI_disk rt stats q) \<and>
     text_of (state_of (updateUI rt stats p)) i = text_of (state_of (updateUI_disk rt stats q)) i"
proof -
  let ?pre = "[updateUI_cpu rt stats, updateUI_memory rt stats, updateUI_gpu rt stats,
           updateUI_network rt stats]"
  let ?post = "[updateUI_process rt stats, updateUI_system rt stats, updateUI_tracking rt stats]"
  obtain q where q: "run ?pre p = Normal q" "completes (run (updateUI_disk rt stats # ?post) q)"
    using completes_append[OF c[unfolded updateUI_split_disk]] by blast
  have k: "keeps (i, ''textContent'') d" if "d \<in> set ?post" for d
    using that i
    by (auto intro!: keeps_updateUI_process keeps_updateUI_system keeps_updateUI_tracking)
  have "props (state_of (updateUI rt stats p)) (i, ''textContent'') =
      props (state_of (updateUI_disk rt stats q)) (i, ''textContent'')"
    unfolding updateUI_split_disk by (rule run_pre_post[OF q(1) k])
  with completes_head[OF q(2)] show ?thesis
    by (auto simp: text_of_def)
qed

lemma updateChartData_disk_chart:
  assumes n: "\<not> nullish stats"
  shows "\<exists>q. updateChartData rt now stats p = Normal q \<and>
     shown_data q DiskChart 0 = chartData q DiskRead \<and>
     shown_data q DiskChart 1 = chartData q DiskWrite \<and>
     chartData q = (\<lambda>s. if MAX_DATA_POINTS \<le> length (chartData p Labels)
         then tl (chartData p s @ [sample_val now stats s])
         else chartData p s @ [sample_val now stats s])"
proof -
  let ?p1 = "p\<lparr>chartData := (\<lambda>s. chartData p s @ [sample_val now stats s])\<rparr>"
  let ?p2 = "?p1\<lparr>chartData :=
      (\<lambda>s. if MAX_DATA_POINTS < length (chartData ?p1 Labels)
           then tl (chartData ?p1 s) else chartData ?p1 s)\<rparr>"
  obtain p3 where p3: "run refresh_charts ?p2 = Normal p3" "chartData p3 = chartData ?p2"
    "chartDatasets p3 (DiskChart, 0) = Shared DiskRead"
    "chartDatasets p3 (DiskChart, 1) = Shared DiskWrite"
    by (simp add: refresh_charts_def set_labels_def set_dataset_def)
  obtain p4 where p4: "update_gauge rt stats p3 = Normal p4" "chartData p4 = chartData p3"
    "chartDatasets p4 = chartDatasets p3"
    by (simp add: update_gauge_def assign_def field_or_ok[OF n])
  have "updateChartData rt now stats p = Normal p4"
    unfolding updateChartData_def
    by (simp only: run_append add_samples_ok[OF n] outcome.case run.simps keep_max_ok p3 p4)
  moreover have "chartData p4 = (\<lambda>s. if MAX_DATA_POINTS \<le> length (chartData p Labels)
         then tl (chartData p s @ [sample_val now stats s])
         else chartData p s @ [sample_val now stats s])"
    by (rule ext) (simp add: p4 p3 less_Suc_eq_le)
  moreover have "shown_data p4 DiskChart 0 = chartData p4 DiskRead"
    "shown_data p4 DiskChart 1 = chartData p4 DiskWrite"
    by (simp_all add: shown_data_def p4 p3 del: One_nat_def)
  ultimately show ?thesis by blast
qed

lemma last_window:
  assumes "length xs = n" "0 < m"
  shows "last (if m \<le> n then tl (xs @ [v]) else xs @ [v]) = v"
proof (cases xs)
  case Nil
  with assms show ?thesis by simp
next
  case (Cons x ys)
  then show ?thesis by simp
qed

lemma sample_val_disk:
  assumes "\<not> nullish stats"
  shows "sample_val now stats DiskRead =
      or_else (opt_get (own_prop stats ''disk'') ''io_read_speed_mbps'') (Num (Fin 0))"
    "sample_val now stats DiskWrite =
      or_else (opt_get (own_prop stats ''disk'') ''io_write_speed_mbps'') (Num (Fin 0))"
  using assms by (simp_all add: sample_val_def field_or_ok)

text \<open>
  C1, as the script has it.  The script reads the disk speeds from
  \<^verbatim>\<open>disk.io_read_speed_mbps\<close> and \<^verbatim>\<open>disk.io_write_speed_mbps\<close> and the CPU
  details from \<^verbatim>\<open>cpu.temperature\<close>, \<^verbatim>\<open>cpu.frequency_current\<close> and
  \<^verbatim>\<open>cpu.core_count_logical\<close>.  For a payload that is not \<^verbatim>\<open>null\<close>:
  \<^verbatim>\<open>updateChartData\<close> completes, and on a page whose disk histories are as long as
  the label history the newest point of each disk line is the payload's number under that
  name, and 0 when the payload has no member of that name; when \<^verbatim>\<open>updateUI\<close>
  completes, the two speed texts are those numbers followed by \<^verbatim>\<open>MB/s\<close>, and a
  temperature, frequency or core count that is a number other than 0 is shown as that
  number (the first two through \<^verbatim>\<open>toFixed(0)\<close>); and when the payload has no
  member of the name the script reads, the page shows the text reserved for missing data:
  \<^verbatim>\<open>0 MB/s\<close> for either speed, \<^verbatim>\<open>--\<close> with the degree sign and \<^verbatim>\<open>C\<close> for the
  temperature, \<^verbatim>\<open>-- MHz\<close> for the frequency and \<^verbatim>\<open>--\<close> for the core count.
\<close>

theorem script_names_charted_and_shown:
  assumes "\<not> nullish stats"
  shows "completes (updateChartData rt now stats p) \<and>
     (length (chartData p DiskRead) = length (chartData p Labels) \<longrightarrow>
        (\<forall>r. opt_get (own_prop stats ''disk'') ''io_read_speed_mbps'' = Num (Fin r) \<longrightarrow>
           last (shown_data (state_of (updateChartData rt now stats p)) DiskChart 0) =
             Num (Fin r)) \<and>
        (opt_get (own_prop stats ''disk'') ''io_read_speed_mbps'' = Undefined \<longrightarrow>
           last (shown_data (state_of (updateChartData rt now stats p)) DiskChart 0) =
             Num (Fin 0))) \<and>
     (length (chartData p DiskWrite) = length (chartData p Labels) \<longrightarrow>
        (\<forall>w. opt_get (own_prop stats ''disk'') ''io_write_speed_mbps'' = Num (Fin w) \<longrightarrow>
           last (shown_data (state_of (updateChartData rt now stats p)) DiskChart 1) =
             Num (Fin w)) \<and>
        (opt_get (own_prop stats ''disk'') ''io_write_speed_mbps'' = Undefined \<longrightarrow>
           last (shown_data (state_of (updateChartData rt now stats p)) DiskChart 1) =
             Num (Fin 0))) \<and>
     (completes (updateUI rt stats p) \<longrightarrow>
        (\<forall>r. opt_get (own_prop stats ''disk'') ''io_read_speed_mbps'' = Num (Fin r) \<longrightarrow>
           text_of (state_of (updateUI rt stats p)) ''diskRead'' =
             Str (number_text rt r @ '' MB/s'')) \<and>
        (\<forall>w. opt_get (own_prop stats ''disk'') ''io_write_speed_mbps'' = Num (Fin w) \<longrightarrow>
           text_of (state_of (updateUI rt stats p)) ''diskWrite'' =
             Str (number_text rt w @ '' MB/s'')) \<and>
        (\<forall>t. opt_get (own_prop stats ''cpu'') ''temperature'' = Num (Fin t) \<longrightarrow> t \<noteq> 0 \<longrightarrow>
           text_of (state_of (updateUI rt stats p)) ''cpuTemp'' =
             Str (num_toFixed rt (Fin t) 0 @ [CHR 0xC2, CHR 0xB0] @ ''C'')) \<and>
        (\<forall>f. opt_get (own_prop stats ''cpu'') ''frequency_current'' = Num (Fin f) \<longrightarrow> f \<noteq> 0 \<longrightarrow>
           text_of (state_of (updateUI rt stats p)) ''cpuFreq'' =
             Str (num_toFixed rt (Fin f) 0 @ '' MHz'')) \<and>
        (\<forall>k. opt_get (own_prop stats ''cpu'') ''core_count_logical'' = Num (Fin k) \<longrightarrow>
           k \<noteq> 0 \<longrightarrow>
           text_of (state_of (updateUI rt stats p)) ''cpuCores'' = Num (Fin k)) \<and>
        (opt_get (own_prop stats ''disk'') ''io_read_speed_mbps'' = Undefined \<longrightarrow>
           text_of (state_of (updateUI rt stats p)) ''diskRead'' = Str ''0 MB/s'') \<and>
        (opt_get (own_prop stats ''disk'') ''io_write_speed_mbps'' = Undefined \<longrightarrow>
           text_of (state_of (updateUI rt stats p)) ''diskWrite'' = Str ''0 MB/s'') \<and>
        (opt_get (own_prop stats ''cpu'') ''temperature'' = Undefined \<longrightarrow>
           text_of (state_of (updateUI rt stats p)) ''cpuTemp'' =
             Str (''--'' @ [CHR 0xC2, CHR 0xB0] @ ''C'')) \<and>
        (opt_get (own_prop stats ''cpu'') ''frequency_current'' = Undefined \<longrightarrow>
           text_of (state_of (updateUI rt stats p)) ''cpuFreq'' = Str ''-- MHz'') \<and>
        (opt_get (own_prop stats ''cpu'') ''core_count_logical'' = Undefined \<longrightarrow>
           text_of (state_of (updateUI rt stats p)) ''cpuCores'' = Str ''--''))"
proof -
  obtain q where q: "updateChartData rt now stats p = Normal q"
     "shown_data q DiskChart 0 = chartData q DiskRead"
     "shown_data q DiskChart 1 = chartData q DiskWrite"
     "chartData q = (\<lambda>s. if MAX_DATA_POINTS \<le> length (chartData p Labels)
         then tl (chartData p s @ [sample_val now stats s])
         else chartData p s @ [sample_val now stats s])"
    using updateChartData_disk_chart[OF assms, of rt now p] by blast
  have pos: "0 < MAX_DATA_POINTS"
    by (simp add: MAX_DATA_POINTS_def)
  have c1: "completes (updateChartData rt now stats p)"
    by (simp add: q(1))
  have rd: "last (shown_data (state_of (updateChartData rt now stats p)) DiskChart 0) =
      or_else (opt_get (own_prop stats ''disk'') ''io_read_speed_mbps'') (Num (Fin 0))"
    if "length (chartData p DiskRead) = length (chartData p Labels)"
    using last_window[OF that pos, of "sample_val now stats DiskRead"]
    by (simp add: q sample_val_disk[OF assms])
  have wr: "last (shown_data (state_of (updateChartData rt now stats p)) DiskChart 1) =
      or_else (opt_get (own_prop stats ''disk'') ''io_write_speed_mbps'') (Num (Fin 0))"
    if "length (chartData p DiskWrite) = length (chartData p Labels)"
    using last_window[OF that pos, of "sample_val now stats DiskWrite"]
    by (simp add: q sample_val_disk[OF assms] del: One_nat_def)
  have keep: "or_else (Num (Fin r)) (Num (Fin 0)) = Num (Fin r)"
    "or_else Undefined (Num (Fin 0)) = Num (Fin 0)" for r
    by (simp_all add: or_else_def)
  have c2: "length (chartData p DiskRead) = length (chartData p Labels) \<longrightarrow>
        (\<forall>r. opt_get (own_prop stats ''disk'') ''io_read_speed_mbps'' = Num (Fin r) \<longrightarrow>
           last (shown_data (state_of (updateChartData rt now stats p)) DiskChart 0) =
             Num (Fin r)) \<and>
        (opt_get (own_prop stats ''disk'') ''io_read_speed_mbps'' = Undefined \<longrightarrow>
           last (shown_data (state_of (updateChartData rt now stats p)) DiskChart 0) =
             Num (Fin 0))"
    using rd keep by simp
  have c3: "length (chartData p DiskWrite) = length (chartData p Labels) \<longrightarrow>
        (\<forall>w. opt_get (own_prop stats ''disk'') ''io_write_speed_mbps'' = Num (Fin w) \<longrightarrow>
           last (shown_data (state_of (updateChartData rt now stats p)) DiskChart 1) =
             Num (Fin w)) \<and>
        (opt_get (own_prop stats ''disk'') ''io_write_speed_mbps'' = Undefined \<longrightarrow>
           last (shown_data (state_of (updateChartData rt now stats p)) DiskChart 1) =
             Num (Fin 0))"
    using wr keep by simp
  have c4: "(\<forall>r. opt_get (own_prop stats ''disk'') ''io_read_speed_mbps'' = Num (Fin r) \<longrightarrow>
           text_of (state_of (updateUI rt stats p)) ''diskRead'' =
             Str (number_text rt r @ '' MB/s'')) \<and>
        (\<forall>w. opt_get (own_prop stats ''disk'') ''io_write_speed_mbps'' = Num (Fin w) \<longrightarrow>
           text_of (state_of (updateUI rt stats p)) ''diskWrite'' =
             Str (number_text rt w @ '' MB/s'')) \<and>
        (opt_get (own_prop stats ''disk'') ''io_read_speed_mbps'' = Undefined \<longrightarrow>
           text_of (state_of (updateUI rt stats p)) ''diskRead'' = Str ''0 MB/s'') \<and>
        (opt_get (own_prop stats ''disk'') ''io_write_speed_mbps'' = Undefined \<longrightarrow>
           text_of (state_of (updateUI rt stats p)) ''diskWrite'' = Str ''0 MB/s'')"
    if c: "completes (updateUI rt stats p)"
  proof -
    obtain q1 where q1: "completes (updateUI_disk rt stats q1)"
      "text_of (state_of (updateUI rt stats p)) ''diskRead'' =
         text_of (state_of (updateUI_disk rt stats q1)) ''diskRead''"
      using updateUI_disk_text[OF c, of "''diskRead''"] by auto
    obtain q2 where q2: "completes (updateUI_disk rt stats q2)"
      "text_of (state_of (updateUI rt stats p)) ''diskWrite'' =
         text_of (state_of (updateUI_disk rt stats q2)) ''diskWrite''"
      using updateUI_disk_text[OF c, of "''diskWrite''"] by auto
    from updateUI_disk_speeds[OF assms q1(1)] updateUI_disk_speeds[OF assms q2(1)]
    show ?thesis
      unfolding q1(2) q2(2) by blast
  qed
  have c5: "(\<forall>t. opt_get (own_prop stats ''cpu'') ''temperature'' = Num (Fin t) \<longrightarrow> t \<noteq> 0 \<longrightarrow>
           text_of (state_of (updateUI rt stats p)) ''cpuTemp'' =
             Str (num_toFixed rt (Fin t) 0 @ [CHR 0xC2, CHR 0xB0] @ ''C'')) \<and>
        (\<forall>f. opt_get (own_prop stats ''cpu'') ''frequency_current'' = Num (Fin f) \<longrightarrow> f \<noteq> 0 \<longrightarrow>
           text_of (state_of (updateUI rt stats p)) ''cpuFreq'' =
             Str (num_toFixed rt (Fin f) 0 @ '' MHz'')) \<and>
        (\<forall>k. opt_get (own_prop stats ''cpu'') ''core_count_logical'' = Num (Fin k) \<longrightarrow>
           k \<noteq> 0 \<longrightarrow>
           text_of (state_of (updateUI rt stats p)) ''cpuCores'' = Num (Fin k)) \<and>
        (opt_get (own_prop stats ''cpu'') ''temperature'' = Undefined \<longrightarrow>
           text_of (state_of (updateUI rt stats p)) ''cpuTemp'' =
             Str (''--'' @ [CHR 0xC2, CHR 0xB0] @ ''C'')) \<and>
        (opt_get (own_prop stats ''cpu'') ''frequency_current'' = Undefined \<longrightarrow>
           text_of (state_of (updateUI rt stats p)) ''cpuFreq'' = Str ''-- MHz'') \<and>
        (opt_get (own_prop stats ''cpu'') ''core_count_logical'' = Undefined \<longrightarrow>
           text_of (state_of (updateUI rt stats p)) ''cpuCores'' = Str ''--'')"
    if c: "completes (updateUI rt stats p)"
  proof -
    have "completes (updateUI_cpu rt stats p)"
      using c unfolding updateUI_def by (rule completes_head)
    from updateUI_cpu_details[OF assms this]
    show ?thesis
      by (simp add: updateUI_cpu_text deg_C_def)
  qed
  from c1 c2 c3 c4 c5 show ?thesis by blast
qed

text \<open>
  The claim as stated fails.  On a payload that names the disk speeds
  \<^verbatim>\<open>read_speed_mbps\<close> and \<^verbatim>\<open>write_speed_mbps\<close> (5 and 7) and the CPU details
  \<^verbatim>\<open>temperature_c\<close>, \<^verbatim>\<open>frequency_mhz\<close> and \<^verbatim>\<open>logical_cores\<close>, both functions
  complete, the disk chart gets 0 and 0, and the page shows the texts reserved for
  missing data.
\<close>

theorem spec_names_not_read_counterexample:
  "own_prop (own_prop spec_named_payload ''disk'') ''read_speed_mbps'' = Num (Fin 5) \<and>
   own_prop (own_prop spec_named_payload ''disk'') ''write_speed_mbps'' = Num (Fin 7) \<and>
   own_prop (own_prop spec_named_payload ''cpu'') ''temperature_c'' = Num (Fin 55) \<and>
   own_prop (own_prop spec_named_payload ''cpu'') ''frequency_mhz'' = Num (Fin 3000) \<and>
   own_prop (own_prop spec_named_payload ''cpu'') ''logical_cores'' = Num (Fin 8) \<and>
   completes (updateChartData example_runtime ''12:00:00'' spec_named_payload blank_page) \<and>
   shown_data (state_of (updateChartData example_runtime ''12:00:00'' spec_named_payload
      blank_page)) DiskChart 0 = [Num (Fin 0)] \<and>
   shown_data (state_of (updateChartData example_runtime ''12:00:00'' spec_named_payload
      blank_page)) DiskChart 1 = [Num (Fin 0)] \<and>
   completes (updateUI example_runtime spec_named_payload blank_page) \<and>
   text_of (state_of (updateUI example_runtime spec_named_payload blank_page)) ''diskRead'' =
     Str ''0 MB/s'' \<and>
   text_of (state_of (updateUI example_runtime spec_named_payload blank_page)) ''diskWrite'' =
     Str ''0 MB/s'' \<and>
   text_of (state_of (updateUI example_runtime spec_named_payload blank_page)) ''cpuTemp'' =
     Str (''--'' @ [CHR 0xC2, CHR 0xB0] @ ''C'') \<and>
   text_of (state_of (updateUI example_runtime spec_named_payload blank_page)) ''cpuFreq'' =
     Str ''-- MHz'' \<and>
   text_of (state_of (updateUI example_runtime spec_named_payload blank_page)) ''cpuCores'' =
     Str ''--''"
proof -
  have fields:
    "own_prop (own_prop spec_named_payload ''disk'') ''read_speed_mbps'' = Num (Fin 5)"
    "own_prop (own_prop spec_named_payload ''disk'') ''write_speed_mbps'' = Num (Fin 7)"
    "own_prop (own_prop spec_named_payload ''cpu'') ''temperature_c'' = Num (Fin 55)"
    "own_prop (own_prop spec_named_payload ''cpu'') ''frequency_mhz'' = Num (Fin 3000)"
    "own_prop (own_prop spec_named_payload ''cpu'') ''logical_cores'' = Num (Fin 8)"
    by (simp_all add: spec_named_payload_def)
  have chart:
    "completes (updateChartData example_runtime ''12:00:00'' spec_named_payload blank_page)"
    "shown_data (state_of (updateChartData example_runtime ''12:00:00'' spec_named_payload
      blank_page)) DiskChart 0 = [Num (Fin 0)]"
    "shown_data (state_of (updateChartData example_runtime ''12:00:00'' spec_named_payload
      blank_page)) DiskChart 1 = [Num (Fin 0)]"
    by code_simp+
  have page:
    "completes (updateUI example_runtime spec_named_payload blank_page)"
    "text_of (state_of (updateUI example_runtime spec_named_payload blank_page)) ''diskRead'' =
       Str ''0 MB/s''"
    "text_of (state_of (updateUI example_runtime spec_named_payload blank_page)) ''diskWrite'' =
       Str ''0 MB/s''"
    "text_of (state_of (updateUI example_runtime spec_named_payload blank_page)) ''cpuTemp'' =
       Str (''--'' @ [CHR 0xC2, CHR 0xB0] @ ''C'')"
    "text_of (state_of (updateUI example_runtime spec_named_payload blank_page)) ''cpuFreq'' =
       Str ''-- MHz''"
    "text_of (state_of (updateUI example_runtime spec_named_payload blank_page)) ''cpuCores'' =
       Str ''--''"
    by code_simp+
  from fields chart page show ?thesis by blast
qed

theorem script_names_charted_and_shown_witness:
  "\<not> nullish script_named_payload \<and>
   opt_get (own_prop script_named_payload ''disk'') ''io_read_speed_mbps'' = Num (Fin 5) \<and>
   opt_get (own_prop script_named_payload ''disk'') ''io_write_speed_mbps'' = Num (Fin 7) \<and>
   opt_get (own_prop script_named_payload ''cpu'') ''temperature'' = Num (Fin 55) \<and>
   opt_get (own_prop script_named_payload ''cpu'') ''frequency_current'' = Num (Fin 3000) \<and>
   opt_get (own_prop script_named_payload ''cpu'') ''core_count_logical'' = Num (Fin 8) \<and>
   completes (updateUI example_runtime script_named_payload blank_page) \<and>
   last (shown_data (state_of (updateChartData example_runtime ''12:00:00''
      script_named_payload blank_page)) DiskChart 0) = Num (Fin 5) \<and>
   last (shown_data (state_of (updateChartData example_runtime ''12:00:00''
      script_named_payload blank_page)) DiskChart 1) = Num (Fin 7) \<and>
   text_of (state_of (updateUI example_runtime script_named_payload blank_page)) ''diskRead'' =
     Str ''5 MB/s'' \<and>
   text_of (state_of (updateUI example_runtime script_named_payload blank_page)) ''diskWrite'' =
     Str ''7 MB/s'' \<and>
   text_of (state_of (updateUI example_runtime script_named_payload blank_page)) ''cpuTemp'' =
     Str (''55'' @ [CHR 0xC2, CHR 0xB0] @ ''C'') \<and>
   text_of (state_of (updateUI example_runtime script_named_payload blank_page)) ''cpuFreq'' =
     Str ''3000 MHz'' \<and>
   text_of (state_of (updateUI example_runtime script_named_payload blank_page)) ''cpuCores'' =
     Num (Fin 8) \<and>
   \<not> nullish (Obj []) \<and>
   opt_get (own_prop (Obj []) ''disk'') ''io_read_speed_mbps'' = Undefined \<and>
   opt_get (own_prop (Obj []) ''disk'') ''io_write_speed_mbps'' = Undefined \<and>
   opt_get (own_prop (Obj []) ''cpu'') ''temperature'' = Undefined \<and>
   opt_get (own_prop (Obj []) ''cpu'') ''frequency_current'' = Undefined \<and>
   opt_get (own_prop (Obj []) ''cpu'') ''core_count_logical'' = Undefined \<and>
   completes (updateUI example_runtime (Obj []) blank_page) \<and>
   last (shown_data (state_of (updateChartData example_runtime ''12:00:00''
      (Obj []) blank_page)) DiskChart 0) = Num (Fin 0) \<and>
   last (shown_data (state_of (updateChartData example_runtime ''12:00:00''
      (Obj []) blank_page)) DiskChart 1) = Num (Fin 0) \<and>
   text_of (state_of (updateUI example_runtime (Obj []) blank_page)) ''diskRead'' =
     Str ''0 MB/s'' \<and>
   text_of (state_of (updateUI example_runtime (Obj []) blank_page)) ''diskWrite'' =
     Str ''0 MB/s'' \<and>
   text_of (state_of (updateUI example_runtime (Obj []) blank_page)) ''cpuTemp'' =
     Str (''--'' @ [CHR 0xC2, CHR 0xB0] @ ''C'') \<and>
   text_of (state_of (updateUI example_runtime (Obj []) blank_page)) ''cpuFreq'' =
     Str ''-- MHz'' \<and>
   text_of (state_of (updateUI example_runtime (Obj []) blank_page)) ''cpuCores'' =
     Str ''--''"
proof -
  have n: "\<not> nullish script_named_payload"
    by (simp add: script_named_payload_def nullish_def)
  have f: "opt_get (own_prop script_named_payload ''disk'') ''io_read_speed_mbps'' = Num (Fin 5)"
    "opt_get (own_prop script_named_payload ''disk'') ''io_write_speed_mbps'' = Num (Fin 7)"
    "opt_get (own_prop script_named_payload ''cpu'') ''temperature'' = Num (Fin 55)"
    "opt_get (own_prop script_named_payload ''cpu'') ''frequency_current'' = Num (Fin 3000)"
    "opt_get (own_prop script_named_payload ''cpu'') ''core_count_logical'' = Num (Fin 8)"
    by (simp_all add: script_named_payload_def opt_get_def nullish_def)
  have c: "completes (updateUI example_runtime script_named_payload blank_page)"
    by code_simp
  have l: "length (chartData blank_page DiskRead) = length (chartData blank_page Labels)"
    "length (chartData blank_page DiskWrite) = length (chartData blank_page Labels)"
    by (simp_all add: blank_page_def initial_page_def)
  have t: "number_text example_runtime 5 = ''5''"
    "number_text example_runtime 7 = ''7''"
    "num_toFixed example_runtime (Fin 55) 0 = ''55''"
    "num_toFixed example_runtime (Fin 3000) 0 = ''3000''"
    by code_simp+
  have n0: "\<not> nullish (Obj [])"
    by (simp add: nullish_def)
  have f0: "opt_get (own_prop (Obj []) ''disk'') ''io_read_speed_mbps'' = Undefined"
    "opt_get (own_prop (Obj []) ''disk'') ''io_write_speed_mbps'' = Undefined"
    "opt_get (own_prop (Obj []) ''cpu'') ''temperature'' = Undefined"
    "opt_get (own_prop (Obj []) ''cpu'') ''frequency_current'' = Undefined"
    "opt_get (own_prop (Obj []) ''cpu'') ''core_count_logical'' = Undefined"
    by (simp_all add: opt_get_def nullish_def)
  have c0: "completes (updateUI example_runtime (Obj []) blank_page)"
    by code_simp
  have named: "last (shown_data (state_of (updateChartData example_runtime ''12:00:00''
      script_named_payload blank_page)) DiskChart 0) = Num (Fin 5) \<and>
   last (shown_data (state_of (updateChartData example_runtime ''12:00:00''
      script_named_payload blank_page)) DiskChart 1) = Num (Fin 7) \<and>
   text_of (state_of (updateUI example_runtime script_named_payload blank_page)) ''diskRead'' =
     Str ''5 MB/s'' \<and>
   text_of (state_of (updateUI example_runtime script_named_payload blank_page)) ''diskWrite'' =
     Str ''7 MB/s'' \<and>
   text_of (state_of (updateUI example_runtime script_named_payload blank_page)) ''cpuTemp'' =
     Str (''55'' @ [CHR 0xC2, CHR 0xB0] @ ''C'') \<and>
   text_of (state_of (updateUI example_runtime script_named_payload blank_page)) ''cpuFreq'' =
     Str ''3000 MHz'' \<and>
   text_of (state_of (updateUI example_runtime script_named_payload blank_page)) ''cpuCores'' =
     Num (Fin 8)"
    using script_names_charted_and_shown[OF n, of example_runtime "''12:00:00''" blank_page]
      f c l t
    by (simp del: One_nat_def)
  have absent: "last (shown_data (state_of (updateChartData example_runtime ''12:00:00''
      (Obj []) blank_page)) DiskChart 0) = Num (Fin 0) \<and>
   last (shown_data (state_of (updateChartData example_runtime ''12:00:00''
      (Obj []) blank_page)) DiskChart 1) = Num (Fin 0) \<and>
   text_of (state_of (updateUI example_runtime (Obj []) blank_page)) ''diskRead'' =
     Str ''0 MB/s'' \<and>
   text_of (state_of (updateUI example_runtime (Obj []) blank_page)) ''diskWrite'' =
     Str ''0 MB/s'' \<and>
   text_of (state_of (updateUI example_runtime (Obj []) blank_page)) ''cpuTemp'' =
     Str (''--'' @ [CHR 0xC2, CHR 0xB0] @ ''C'') \<and>
   text_of (state_of (updateUI example_runtime (Obj []) blank_page)) ''cpuFreq'' =
     Str ''-- MHz'' \<and>
   text_of (state_of (updateUI example_runtime (Obj []) blank_page)) ''cpuCores'' =
     Str ''--''"
    using script_names_charted_and_shown[OF n0, of example_runtime "''12:00:00''" blank_page]
      f0 c0 l
    by (simp del: One_nat_def)
  from n f c named n0 f0 c0 absent show ?thesis
    by blast
qed

subsection \<open>The gauge\<close>

lemma pow2_powi: "pow2 e = 2 powi e"
  by (simp add: pow2_def power_int_def inverse_eq_divide power_one_over)

lemma pow2_pos: "0 < pow2 e"
  by (simp add: pow2_powi)

lemma pow2_mono: "e \<le> e' \<Longrightarrow> pow2 e \<le> pow2 e'"
  unfolding pow2_powi by (rule power_int_increasing) simp_all

lemma bits_nonneg: "0 \<le> bits n"
proof (induction n rule: bits.induct)
  case (1 n)
  then show ?case by (subst bits.simps) simp
qed

lemma bits_le: "n < 2 ^ k \<Longrightarrow> bits n \<le> int k"
proof (induction k arbitrary: n)
  case 0
  then show ?case by (subst bits.simps) simp
next
  case (Suc k)
  have "n div 2 < 2 ^ k"
    using Suc.prems by simp
  then have "bits (n div 2) \<le> int k"
    by (rule Suc.IH)
  then show ?case
    by (subst bits.simps) simp
qed

lemma binade_le:
  assumes "a < 2 ^ Suc k"
  shows "binade a \<le> int k"
proof (cases "1 \<le> a")
  case True
  have "\<lfloor>a\<rfloor> < 2 ^ Suc k"
  proof -
    have "a < of_int (2 ^ Suc k)"
      using assms by simp
    then show ?thesis
      by (simp only: floor_less_iff)
  qed
  then have "bits \<lfloor>a\<rfloor> \<le> int (Suc k)"
    by (rule bits_le)
  with True show ?thesis
    by (simp add: binade_def)
next
  case False
  with bits_nonneg[of "\<lceil>1 / a\<rceil> - 1"] show ?thesis
    by (simp add: binade_def)
qed

lemma round_half_even_near: "\<bar>of_int (round_half_even q) - q\<bar> \<le> 1 / 2"
proof -
  have "of_int \<lfloor>q\<rfloor> \<le> q" "q < of_int \<lfloor>q\<rfloor> + 1"
    by linarith+
  then show ?thesis
    by (auto simp: round_half_even_def Let_def)
qed

lemma round_half_even_nonneg: "0 \<le> q \<Longrightarrow> 0 \<le> round_half_even q"
  by (auto simp: round_half_even_def Let_def)

text \<open>Within half a unit of an even whole number, the rounding gives that number.\<close>

lemma round_half_even_int:
  assumes "even n" "\<bar>t\<bar> \<le> 1 / 2"
  shows "round_half_even (of_int n + t) = n"
proof -
  consider (up) "t = 1 / 2" | (down) "t = - 1 / 2" | (below) "- 1 / 2 < t" "t < 0"
    | (above) "0 \<le> t" "t < 1 / 2"
    using assms(2) by linarith
  then show ?thesis
  proof cases
    case up
    have "\<lfloor>of_int n + t\<rfloor> = n"
      unfolding up by (simp add: floor_unique)
    then show ?thesis
      using assms(1) by (simp add: round_half_even_def Let_def up)
  next
    case down
    have "\<lfloor>of_int n + t\<rfloor> = n - 1"
      unfolding down by (rule floor_unique) simp_all
    then show ?thesis
      using assms(1) by (simp add: round_half_even_def Let_def down)
  next
    case below
    have "\<lfloor>of_int n + t\<rfloor> = n - 1"
      using below by (intro floor_unique) simp_all
    then show ?thesis
      using below by (simp add: round_half_even_def Let_def)
  next
    case above
    have "\<lfloor>of_int n + t\<rfloor> = n"
      using above by (intro floor_unique) simp_all
    then show ?thesis
      using above by (simp add: round_half_even_def Let_def)
  qed
qed

text \<open>
  Up to 100 a double is at most \<open>2 ^ - 46\<close> from the next one, so rounding moves a
  number by at most \<open>2 ^ - 47\<close>.
\<close>

lemma round_double_near:
  assumes "0 \<le> x" "x \<le> 100"
  shows "\<exists>m. round_double x = Fin m \<and> 0 \<le> m \<and> \<bar>m - x\<bar> \<le> 1 / 2 ^ 47"
proof (cases "x = 0")
  case True
  then show ?thesis by (simp add: round_double_def)
next
  case False
  with assms have pos: "0 < x" by simp
  define e where "e = max (binade x) (- 1022)"
  define u where "u = pow2 (e - 52)"
  define m where "m = of_int (round_half_even (x / u)) * u"
  have "x < 2 ^ Suc 6" using assms(2) by simp
  then have "binade x \<le> 6" using binade_le[of x 6] by simp
  then have e: "e \<le> 6" by (simp add: e_def)
  have u0: "0 < u" by (simp add: u_def pow2_pos)
  have "u \<le> pow2 (- 46)"
    unfolding u_def using e by (intro pow2_mono) simp
  then have u1: "u \<le> 1 / 2 ^ 46" by (simp add: pow2_def)
  have m0: "0 \<le> m"
    unfolding m_def using pos u0 round_half_even_nonneg[of "x / u"] by simp
  have "\<bar>m - x\<bar> = \<bar>of_int (round_half_even (x / u)) - x / u\<bar> * u"
  proof -
    have "m - x = (of_int (round_half_even (x / u)) - x / u) * u"
      using u0 by (simp add: m_def algebra_simps)
    then show ?thesis
      using u0 by (simp add: abs_mult)
  qed
  also have "\<dots> \<le> (1 / 2) * u"
    using round_half_even_near[of "x / u"] u0 by (intro mult_right_mono) simp_all
  also have "\<dots> \<le> 1 / 2 ^ 47"
    using u1 by simp
  finally have near: "\<bar>m - x\<bar> \<le> 1 / 2 ^ 47" .
  have "m < 2 ^ Suc 6"
  proof -
    have "m \<le> x + 1 / 2 ^ 47" using near by linarith
    also have "\<dots> < 2 ^ Suc 6" using assms(2) by simp
    finally show ?thesis .
  qed
  then have "binade m \<le> 6" using binade_le[of m 6] by simp
  then have fin: "\<not> 1024 \<le> binade m" by simp
  have "round_double x = Fin m"
    using pos fin
    by (simp add: round_double_def Let_def e_def[symmetric] u_def[symmetric] m_def[symmetric])
  with m0 near show ?thesis by blast
qed

lemma bits_100: "bits 99 = 7" "bits 100 = 7"
  by code_simp+

text \<open>
  100 is a double with an even significand, and its neighbours are \<open>2 ^ - 46\<close> away:
  whatever is within \<open>2 ^ - 47\<close> of 100 rounds to 100.
\<close>

lemma round_double_100:
  assumes "\<bar>t\<bar> \<le> 1 / 2 ^ 47"
  shows "round_double (100 + t) = Fin 100"
proof -
  define a where "a = 100 + t"
  have a: "99 \<le> a" "a < 101" "0 < a"
    using assms unfolding a_def by (simp_all add: abs_le_iff)
  have "\<lfloor>a\<rfloor> = 99 \<or> \<lfloor>a\<rfloor> = 100"
  proof -
    have "99 \<le> \<lfloor>a\<rfloor>" "\<lfloor>a\<rfloor> < 101"
      using a by (simp_all add: le_floor_iff floor_less_iff)
    then show ?thesis by linarith
  qed
  then have b: "binade a = 6"
    using a(1) by (auto simp: binade_def bits_100)
  define e where "e = max (binade a) (- 1022)"
  define u where "u = pow2 (e - 52)"
  define m where "m = of_int (round_half_even (a / u)) * u"
  have e: "e = 6" by (simp add: e_def b)
  have u: "u = 1 / 2 ^ 46" by (simp add: u_def e pow2_def)
  have q: "a / u = of_int (100 * 2 ^ 46) + t * 2 ^ 46"
    unfolding u by (simp add: a_def algebra_simps)
  have "\<bar>t * 2 ^ 46\<bar> \<le> 1 / 2"
  proof -
    have "\<bar>t * 2 ^ 46\<bar> = \<bar>t\<bar> * 2 ^ 46" by (simp add: abs_mult)
    also have "\<dots> \<le> (1 / 2 ^ 47) * 2 ^ 46"
      using assms by (intro mult_right_mono) simp_all
    finally show ?thesis by simp
  qed
  then have r: "round_half_even (a / u) = 100 * 2 ^ 46"
    unfolding q by (intro round_half_even_int) simp_all
  have m: "m = 100"
    unfolding m_def r by (simp add: u)
  have b100: "binade 100 = 6"
    by (simp add: binade_def bits_100)
  have "round_double a = Fin m"
    using a(3)
    by (simp add: round_double_def Let_def e_def[symmetric] u_def[symmetric] m_def[symmetric]
        m b100)
  then show ?thesis by (simp add: a_def m)
qed

lemma updateChartData_gauge:
  assumes n: "\<not> nullish stats"
  shows "\<exists>q. updateChartData rt now stats p = Normal q \<and>
     gaugeData q =
       [or_else (opt_get (own_prop stats ''cpu'') ''usage_percent'') (Num (Fin 0)),
        Num (js_sub_from 100 (to_number rt
          (or_else (opt_get (own_prop stats ''cpu'') ''usage_percent'') (Num (Fin 0)))))]"
proof -
  let ?p1 = "p\<lparr>chartData := (\<lambda>s. chartData p s @ [sample_val now stats s])\<rparr>"
  let ?p2 = "?p1\<lparr>chartData :=
      (\<lambda>s. if MAX_DATA_POINTS < length (chartData ?p1 Labels)
           then tl (chartData ?p1 s) else chartData ?p1 s)\<rparr>"
  obtain p3 where p3: "run refresh_charts ?p2 = Normal p3"
    by (simp add: refresh_charts_def set_labels_def set_dataset_def)
  obtain p4 where p4: "update_gauge rt stats p3 = Normal p4"
    "gaugeData p4 =
       [or_else (opt_get (own_prop stats ''cpu'') ''usage_percent'') (Num (Fin 0)),
        Num (js_sub_from 100 (to_number rt
          (or_else (opt_get (own_prop stats ''cpu'') ''usage_percent'') (Num (Fin 0)))))]"
    by (simp add: update_gauge_def assign_def field_or_ok[OF n])
  have "updateChartData rt now stats p = Normal p4"
    unfolding updateChartData_def
    by (simp only: run_append add_samples_ok[OF n] outcome.case run.simps keep_max_ok p3 p4)
  with p4(2) show ?thesis by blast
qed

text \<open>
  C10, as the script's arithmetic has it.  For a payload that is not \<^verbatim>\<open>null\<close>,
  \<^verbatim>\<open>updateChartData\<close> completes and the gauge's dataset is \<^verbatim>\<open>[u, 100 - u]\<close>:
  \<open>[0, 100]\<close> when the payload has no \<^verbatim>\<open>cpu.usage_percent\<close>, and for a number
  \<open>u\<close> the pair of \<open>u\<close> and the double nearest to \<open>100 - u\<close>.  Whenever \<open>u\<close>
  lies between 0 and 100, the second entry is not negative, the two entries added as the
  script adds numbers give exactly 100, and their exact sum is within \<open>2 ^ - 47\<close> of
  100.
\<close>

theorem gauge_sums_to_100:
  assumes "\<not> nullish stats"
  shows "completes (updateChartData rt now stats p) \<and>
     (opt_get (own_prop stats ''cpu'') ''usage_percent'' = Undefined \<longrightarrow>
        gaugeData (state_of (updateChartData rt now stats p)) = [Num (Fin 0), Num (Fin 100)]) \<and>
     (\<forall>u. opt_get (own_prop stats ''cpu'') ''usage_percent'' = Num (Fin u) \<longrightarrow>
        gaugeData (state_of (updateChartData rt now stats p)) =
          [Num (Fin u), Num (round_double (100 - u))]) \<and>
     (\<forall>u. opt_get (own_prop stats ''cpu'') ''usage_percent'' = Num (Fin u) \<longrightarrow>
        0 \<le> u \<longrightarrow> u \<le> 100 \<longrightarrow>
        (\<exists>d. gaugeData (state_of (updateChartData rt now stats p)) =
               [Num (Fin u), Num (Fin d)] \<and>
             0 \<le> d \<and> \<bar>u + d - 100\<bar> \<le> 1 / 2 ^ 47 \<and>
             js_add (Fin u) (Fin d) = Fin 100))"
proof -
  let ?usage = "opt_get (own_prop stats ''cpu'') ''usage_percent''"
  obtain q where q: "updateChartData rt now stats p = Normal q"
    "gaugeData q = [or_else ?usage (Num (Fin 0)),
        Num (js_sub_from 100 (to_number rt (or_else ?usage (Num (Fin 0)))))]"
    using updateChartData_gauge[OF assms, of rt now p] by blast
  have hundred: "round_double 100 = Fin 100"
    using round_double_100[of 0] by simp
  have c1: "completes (updateChartData rt now stats p)"
    by (simp add: q(1))
  have c2: "gaugeData (state_of (updateChartData rt now stats p)) = [Num (Fin 0), Num (Fin 100)]"
    if "?usage = Undefined"
    by (simp add: q that or_else_def hundred)
  have c3: "gaugeData (state_of (updateChartData rt now stats p)) =
          [Num (Fin u), Num (round_double (100 - u))]"
    if "?usage = Num (Fin u)" for u
    by (cases "u = 0") (simp_all add: q that or_else_def)
  have c4: "\<exists>d. gaugeData (state_of (updateChartData rt now stats p)) =
               [Num (Fin u), Num (Fin d)] \<and>
             0 \<le> d \<and> \<bar>u + d - 100\<bar> \<le> 1 / 2 ^ 47 \<and>
             js_add (Fin u) (Fin d) = Fin 100"
    if u: "?usage = Num (Fin u)" "0 \<le> u" "u \<le> 100" for u
  proof -
    obtain d where d: "round_double (100 - u) = Fin d" "0 \<le> d"
      "\<bar>d - (100 - u)\<bar> \<le> 1 / 2 ^ 47"
      using round_double_near[of "100 - u"] u(2,3) by auto
    have near: "\<bar>u + d - 100\<bar> \<le> 1 / 2 ^ 47"
      using d(3) by (simp add: algebra_simps)
    have "js_add (Fin u) (Fin d) = round_double (100 + (u + d - 100))"
      by simp
    also have "\<dots> = Fin 100"
      using near by (rule round_double_100)
    finally have "js_add (Fin u) (Fin d) = Fin 100" .
    with c3[OF u(1)] d(1,2) near show ?thesis
      by simp
  qed
  from c1 c2 c3 c4 show ?thesis by blast
qed

text \<open>
  The claim as stated fails: the entries do not always sum to 100.  With a usage of
  \<open>2 ^ 60\<close> the doubles near \<open>100 - 2 ^ 60\<close> are 128 apart; the gauge holds
  \<open>2 ^ 60\<close> and \<open>128 - 2 ^ 60\<close>, and their sum is 128, in the script's arithmetic
  and exactly.
\<close>

theorem gauge_sum_not_100_counterexample:
  "opt_get (own_prop huge_usage_payload ''cpu'') ''usage_percent'' = Num (Fin (2 ^ 60)) \<and>
   completes (updateChartData example_runtime ''12:00:00'' huge_usage_payload blank_page) \<and>
   gaugeData (state_of (updateChartData example_runtime ''12:00:00'' huge_usage_payload
      blank_page)) = [Num (Fin (2 ^ 60)), Num (Fin (128 - 2 ^ 60))] \<and>
   js_add (Fin (2 ^ 60)) (Fin (128 - 2 ^ 60)) = Fin 128 \<and>
   (2 ^ 60 + (128 - 2 ^ 60) :: rat) = 128"
proof -
  have usage:
    "opt_get (own_prop huge_usage_payload ''cpu'') ''usage_percent'' = Num (Fin (2 ^ 60))"
    by (simp add: huge_usage_payload_def opt_get_def nullish_def)
  have gauge:
    "completes (updateChartData example_runtime ''12:00:00'' huge_usage_payload blank_page)"
    "gaugeData (state_of (updateChartData example_runtime ''12:00:00'' huge_usage_payload
      blank_page)) = [Num (Fin (2 ^ 60)), Num (Fin (128 - 2 ^ 60))]"
    by code_simp+
  have sum: "js_add (Fin (2 ^ 60)) (Fin (128 - 2 ^ 60)) = Fin 128"
    by code_simp
  from usage gauge sum show ?thesis by simp
qed

theorem gauge_sums_to_100_witness:
  "\<not> nullish tenth_usage_payload \<and>
   opt_get (own_prop tenth_usage_payload ''cpu'') ''usage_percent'' =
     Num (Fin (3602879701896397 / 2 ^ 55)) \<and>
   (0 :: rat) \<le> 3602879701896397 / 2 ^ 55 \<and> (3602879701896397 / 2 ^ 55 :: rat) \<le> 100 \<and>
   gaugeData (state_of (updateChartData example_runtime ''12:00:00'' tenth_usage_payload
      blank_page)) =
     [Num (Fin (3602879701896397 / 2 ^ 55)), Num (Fin (3514918771674317 / 2 ^ 45))] \<and>
   js_add (Fin (3602879701896397 / 2 ^ 55)) (Fin (3514918771674317 / 2 ^ 45)) = Fin 100 \<and>
   (3602879701896397 / 2 ^ 55 + 3514918771674317 / 2 ^ 45 - 100 :: rat) = 205 / 2 ^ 55 \<and>
   \<not> nullish (Obj []) \<and>
   opt_get (own_prop (Obj []) ''cpu'') ''usage_percent'' = Undefined \<and>
   gaugeData (state_of (updateChartData example_runtime ''12:00:00'' (Obj []) blank_page)) =
     [Num (Fin 0), Num (Fin 100)]"
proof -
  have n: "\<not> nullish tenth_usage_payload"
    by (simp add: tenth_usage_payload_def nullish_def)
  have usage: "opt_get (own_prop tenth_usage_payload ''cpu'') ''usage_percent'' =
     Num (Fin (3602879701896397 / 2 ^ 55))"
    by (simp add: tenth_usage_payload_def opt_get_def nullish_def)
  have range: "(0 :: rat) \<le> 3602879701896397 / 2 ^ 55"
    "(3602879701896397 / 2 ^ 55 :: rat) \<le> 100"
    by simp_all
  have second: "round_double (100 - 3602879701896397 / 2 ^ 55) =
      Fin (3514918771674317 / 2 ^ 45)"
    by code_simp
  from gauge_sums_to_100[OF n, of example_runtime "''12:00:00''" blank_page] usage range
  obtain d where d: "gaugeData (state_of (updateChartData example_runtime ''12:00:00''
      tenth_usage_payload blank_page)) = [Num (Fin (3602879701896397 / 2 ^ 55)), Num (Fin d)]"
    "js_add (Fin (3602879701896397 / 2 ^ 55)) (Fin d) = Fin 100"
    "gaugeData (state_of (updateChartData example_runtime ''12:00:00''
      tenth_usage_payload blank_page)) =
        [Num (Fin (3602879701896397 / 2 ^ 55)),
         Num (round_double (100 - 3602879701896397 / 2 ^ 55))]"
    by blast
  from d(1,3) have "d = 3514918771674317 / 2 ^ 45"
    unfolding second by simp
  with d(1,2) have tenth:
    "gaugeData (state_of (updateChartData example_runtime ''12:00:00'' tenth_usage_payload
      blank_page)) =
     [Num (Fin (3602879701896397 / 2 ^ 55)), Num (Fin (3514918771674317 / 2 ^ 45))]"
    "js_add (Fin (3602879701896397 / 2 ^ 55)) (Fin (3514918771674317 / 2 ^ 45)) = Fin 100"
    by simp_all
  have exact: "(3602879701896397 / 2 ^ 55 + 3514918771674317 / 2 ^ 45 - 100 :: rat) = 205 / 2 ^ 55"
    by simp
  have n0: "\<not> nullish (Obj [])"
    by (simp add: nullish_def)
  have absent: "opt_get (own_prop (Obj []) ''cpu'') ''usage_percent'' = Undefined"
    by (simp add: opt_get_def nullish_def)
  from gauge_sums_to_100[OF n0, of example_runtime "''12:00:00''" blank_page] absent
  have empty: "gaugeData (state_of (updateChartData example_runtime ''12:00:00'' (Obj [])
      blank_page)) = [Num (Fin 0), Num (Fin 100)]"
    by blast
  from n usage range tenth exact n0 absent empty show ?thesis
    by blast
qed

end
